theory Spec2Isabelle
  imports Complex_Main
begin

section \<open>The restoration phase MinC\_1Nrm of Ipopt (IpRestoMinC\_1Nrm.cpp)\<close>

text \<open>
  A shallow embedding of \<^verbatim>\<open>MinC_1NrmRestorationPhase\<close>. The C++ type \<^verbatim>\<open>Number\<close>
  (a double) is read as a real number: rounding, infinities and NaN are not part of
  this model, and no property below rests on what a division by zero gives.
  \<^verbatim>\<open>Index\<close> is read as an unbounded integer. Output to the journalist is left out.
\<close>

type_synonym Number = real
type_synonym Index = int

subsection \<open>Vectors\<close>

text \<open>
  Modelled from the spec: the class Vector (IpVector.hpp) is not among the sources; its
  operations work entry by entry. A \<^verbatim>\<open>Vector\<close> is the list of its entries. The
  operations below are the ones this file calls; each one updates the receiver
  \<open>y\<close> and is written here as the function giving the receiver's new contents.
  Ipopt only combines vectors of one dimension.
\<close>

type_synonym Vector = "Number list"

definition Copy :: "Vector \<Rightarrow> Vector" where
  \<comment> \<open>\<^verbatim>\<open>y.Copy(x)\<close>: y becomes x\<close>
  "Copy x = x"

definition Axpy :: "Number \<Rightarrow> Vector \<Rightarrow> Vector \<Rightarrow> Vector" where
  \<comment> \<open>\<^verbatim>\<open>y.Axpy(alpha, x)\<close>: y becomes y + alpha * x\<close>
  "Axpy alpha x y = map2 (\<lambda>yi xi. yi + alpha * xi) y x"

definition ElementWiseMultiply :: "Vector \<Rightarrow> Vector \<Rightarrow> Vector" where
  \<comment> \<open>\<^verbatim>\<open>y.ElementWiseMultiply(x)\<close>: y[i] becomes y[i] * x[i]\<close>
  "ElementWiseMultiply x y = map2 (\<lambda>yi xi. yi * xi) y x"

definition ElementWiseDivide :: "Vector \<Rightarrow> Vector \<Rightarrow> Vector" where
  \<comment> \<open>\<^verbatim>\<open>y.ElementWiseDivide(x)\<close>: y[i] becomes y[i] / x[i]\<close>
  "ElementWiseDivide x y = map2 (\<lambda>yi xi. yi / xi) y x"

definition AddScalar :: "Number \<Rightarrow> Vector \<Rightarrow> Vector" where
  \<comment> \<open>\<^verbatim>\<open>y.AddScalar(c)\<close>: y[i] becomes y[i] + c\<close>
  "AddScalar c y = map (\<lambda>yi. yi + c) y"

definition Set_scalar :: "Number \<Rightarrow> Vector \<Rightarrow> Vector" where
  \<comment> \<open>\<^verbatim>\<open>y.Set(c)\<close>: every entry of y becomes c\<close>
  "Set_scalar c y = replicate (length y) c"

definition AddTwoVectors :: "Number \<Rightarrow> Vector \<Rightarrow> Number \<Rightarrow> Vector \<Rightarrow> Vector" where
  \<comment> \<open>\<^verbatim>\<open>y.AddTwoVectors(a, v1, b, v2, 0.)\<close>: y becomes a * v1 + b * v2\<close>
  "AddTwoVectors a v1 b v2 = map2 (\<lambda>p q. a * p + b * q) v1 v2"

fun Amax :: "Vector \<Rightarrow> Number" where
  \<comment> \<open>\<^verbatim>\<open>y.Amax()\<close>: the largest absolute value of an entry, 0 for dimension 0\<close>
  "Amax [] = 0"
| "Amax (v # vs) = max \<bar>v\<bar> (Amax vs)"

definition Max4 :: "Number \<Rightarrow> Number \<Rightarrow> Number \<Rightarrow> Number \<Rightarrow> Number" where
  \<comment> \<open>\<^verbatim>\<open>Max(a, b, c, d)\<close> of IpUtils.hpp\<close>
  "Max4 a b c d = max (max a b) (max c d)"

text \<open>
  A \<^verbatim>\<open>CompoundVector\<close> of the restoration problem is a vector made of blocks.
  Block 0 is the block in the space of the original problem; the restoration NLP builds
  every one of its vectors with that block, so the type carries it.
\<close>

datatype CompoundVector = CompoundVector (comp0: Vector) (comps: "Vector list")

fun GetComp :: "CompoundVector \<Rightarrow> nat \<Rightarrow> Vector" where
  "GetComp (CompoundVector c0 cs) i = (if i = 0 then c0 else cs ! (i - 1))"

subsection \<open>Iterates and the data of the two algorithms\<close>

record 'v IteratesVector =
  iv_x :: 'v
  iv_s :: 'v
  y_c :: 'v
  y_d :: 'v
  z_L :: 'v
  z_U :: 'v
  v_L :: 'v
  v_U :: 'v

definition Set_primal :: "'v \<Rightarrow> 'v \<Rightarrow> 'v IteratesVector \<Rightarrow> 'v IteratesVector" where
  "Set_primal xv sv it = it\<lparr>iv_x := xv, iv_s := sv\<rparr>"

definition Set_eq_mult :: "'v \<Rightarrow> 'v \<Rightarrow> 'v IteratesVector \<Rightarrow> 'v IteratesVector" where
  "Set_eq_mult yc yd it = it\<lparr>y_c := yc, y_d := yd\<rparr>"

definition Set_bound_mult ::
  "'v \<Rightarrow> 'v \<Rightarrow> 'v \<Rightarrow> 'v \<Rightarrow> 'v IteratesVector \<Rightarrow> 'v IteratesVector" where
  "Set_bound_mult zl zu vl vu it = it\<lparr>z_L := zl, z_U := zu, v_L := vl, v_U := vu\<rparr>"

text \<open>
  The data of the outer algorithm, \<^verbatim>\<open>IpData()\<close>: the current and the trial iterate,
  the barrier and the fraction-to-the-boundary parameter, the tolerance, the iteration
  counter, the fields of the iteration output and the start times of the overall
  algorithm (\<^verbatim>\<open>TimingStats().OverallAlgorithm()\<close>).
\<close>

record IpoptData =
  curr :: "Vector IteratesVector"
  trial :: "Vector IteratesVector"
  curr_mu :: Number
  curr_tau :: Number
  tol :: Number
  iter_count :: Index
  info_regu_x :: Number
  info_alpha_primal :: Number
  info_alpha_primal_char :: char
  info_alpha_dual :: Number
  info_ls_count :: Index
  info_iters_since_header :: Index
  info_last_output :: Number
  info_skip_output :: bool
  StartWallclockTime :: Number
  StartCpuTime :: Number

definition set_trial :: "Vector IteratesVector \<Rightarrow> IpoptData \<Rightarrow> IpoptData" where
  "set_trial it d = d\<lparr>trial := it\<rparr>"

definition AcceptTrialPoint :: "IpoptData \<Rightarrow> IpoptData" where
  \<comment> \<open>Modelled from the spec: IpoptData is not among the sources. Accepting commits the
      trial iterate as the current one; the trial slot is not read again before it
      is set anew.\<close>
  "AcceptTrialPoint d = d\<lparr>curr := trial d\<rparr>"

definition SetTrialBoundMultipliersFromStep ::
  "Number \<Rightarrow> Vector \<Rightarrow> Vector \<Rightarrow> Vector \<Rightarrow> Vector \<Rightarrow> IpoptData \<Rightarrow> IpoptData" where
  \<comment> \<open>Modelled from the spec: IpoptData is not among the sources. The trial bound
      multipliers become \<open>curr_z + alpha * delta_z\<close> in each of the four families.\<close>
  "SetTrialBoundMultipliersFromStep alpha dzL dzU dvL dvU d =
     set_trial
       (Set_bound_mult
          (AddTwoVectors 1 (z_L (curr d)) alpha dzL)
          (AddTwoVectors 1 (z_U (curr d)) alpha dzU)
          (AddTwoVectors 1 (v_L (curr d)) alpha dvL)
          (AddTwoVectors 1 (v_U (curr d)) alpha dvU)
          (trial d)) d"

text \<open>The data of the restoration algorithm, created anew by every call.\<close>

record RestoIpoptData =
  resto_curr :: "CompoundVector IteratesVector option"
  resto_iter_count :: Index
  resto_info_regu_x :: Number
  resto_info_alpha_primal :: Number
  resto_info_alpha_primal_char :: char
  resto_info_alpha_dual :: Number
  resto_info_ls_count :: Index
  resto_info_iters_since_header :: Index
  resto_info_last_output :: Number

subsection \<open>ComputeBoundMultiplierStep\<close>

definition ComputeBoundMultiplierStep ::
  "IpoptData \<Rightarrow> Vector \<Rightarrow> Vector \<Rightarrow> Vector \<Rightarrow> Vector" where
  "ComputeBoundMultiplierStep d curr_z curr_slack trial_slack =
     (let mu = curr_mu d;
          delta_z = Copy curr_slack;
          delta_z = Axpy (- 1) trial_slack delta_z;
          delta_z = ElementWiseMultiply curr_z delta_z;
          delta_z = AddScalar mu delta_z;
          delta_z = ElementWiseDivide curr_slack delta_z;
          delta_z = Axpy (- 1) curr_z delta_z
      in delta_z)"

subsection \<open>Options\<close>

text \<open>
  Modelled from the spec: the classes OptionsList and RegisteredOptions are not among
  the sources. An options list holds the values the user (or the code) has set, by tag;
  a value is looked up under the prefixed tag first and under the plain tag second, and
  a getter reports whether it found a set value. The registry gives the default of
  every tag.
\<close>

datatype OptionValue = NumericValue Number | StringValue string

type_synonym OptionsList = "string \<rightharpoonup> OptionValue"

record RegisteredOptions =
  default_number :: "string \<Rightarrow> Number"
  default_bool :: "string \<Rightarrow> bool"

definition find_tag :: "OptionsList \<Rightarrow> string \<Rightarrow> string \<Rightarrow> OptionValue option" where
  "find_tag options tag prefix =
     (case (if prefix = [] then None else options (prefix @ tag)) of
        Some v \<Rightarrow> Some v
      | None \<Rightarrow> options tag)"

definition GetNumericValue :: "OptionsList \<Rightarrow> string \<Rightarrow> string \<Rightarrow> Number option" where
  \<comment> \<open>\<open>Some v\<close>: the getter returns true and the value v; \<open>None\<close>: it returns false\<close>
  "GetNumericValue options tag prefix =
     (case find_tag options tag prefix of Some (NumericValue v) \<Rightarrow> Some v | _ \<Rightarrow> None)"

definition GetBoolValue :: "OptionsList \<Rightarrow> string \<Rightarrow> string \<Rightarrow> bool option" where
  "GetBoolValue options tag prefix =
     (case find_tag options tag prefix of
        Some (StringValue v) \<Rightarrow> Some (v = ''yes'')
      | _ \<Rightarrow> None)"

definition GetStringValue :: "OptionsList \<Rightarrow> string \<Rightarrow> string \<Rightarrow> string option" where
  "GetStringValue options tag prefix =
     (case find_tag options tag prefix of Some (StringValue v) \<Rightarrow> Some v | _ \<Rightarrow> None)"

definition SetNumericValue :: "string \<Rightarrow> Number \<Rightarrow> OptionsList \<Rightarrow> OptionsList" where
  "SetNumericValue tag v options = options(tag \<mapsto> NumericValue v)"

definition SetStringValue :: "string \<Rightarrow> string \<Rightarrow> OptionsList \<Rightarrow> OptionsList" where
  "SetStringValue tag v options = options(tag \<mapsto> StringValue v)"

definition SetNumericValueIfUnset :: "string \<Rightarrow> Number \<Rightarrow> OptionsList \<Rightarrow> OptionsList" where
  "SetNumericValueIfUnset tag v options =
     (case GetNumericValue options tag [] of
        Some _ \<Rightarrow> options
      | None \<Rightarrow> SetNumericValue tag v options)"

definition SetStringValueIfUnset :: "string \<Rightarrow> string \<Rightarrow> OptionsList \<Rightarrow> OptionsList" where
  "SetStringValueIfUnset tag v options =
     (case GetStringValue options tag [] of
        Some _ \<Rightarrow> options
      | None \<Rightarrow> SetStringValue tag v options)"

definition RegisterOptions :: "RegisteredOptions \<Rightarrow> RegisteredOptions" where
  "RegisterOptions roptions =
     roptions\<lparr>default_number :=
       (default_number roptions)
         (''bound_mult_reset_threshold'' := 10 ^ 3,
          ''constr_mult_reset_threshold'' := 0,
          ''resto_failure_feasibility_threshold'' := 0)\<rparr>"

subsection \<open>Statuses, exceptions and the outcome of a call\<close>

text \<open>
  Modelled from the spec: the enumeration SolverReturn (IpAlgTypes.hpp) is not among
  the sources. It has the ten statuses that PerformRestoration tells apart and further
  ones, which PerformRestoration treats alike.
\<close>

datatype SolverReturn =
    SUCCESS
  | MAXITER_EXCEEDED
  | CPUTIME_EXCEEDED
  | WALLTIME_EXCEEDED
  | STOP_AT_TINY_STEP
  | STOP_AT_ACCEPTABLE_POINT
  | LOCAL_INFEASIBILITY
  | USER_REQUESTED_STOP
  | FEASIBLE_POINT_FOUND
  | DIVERGING_ITERATES
  | RESTORATION_FAILURE
  | ERROR_IN_STEP_COMPUTATION
  | INVALID_NUMBER_DETECTED
  | TOO_FEW_DEGREES_OF_FREEDOM
  | INVALID_OPTION
  | OUT_OF_MEMORY
  | INTERNAL_ERROR
  | UNASSIGNED

datatype exception =
    RESTORATION_WALLTIME_EXCEEDED
  | RESTORATION_CPUTIME_EXCEEDED
  | FEASIBILITY_PROBLEM_SOLVED
  | RESTORATION_CONVERGED_TO_FEASIBLE_POINT
  | LOCALLY_INFEASIBLE
  | RESTORATION_MAXITER_EXCEEDED
  | RESTORATION_FAILED
  | RESTORATION_USER_STOP

text \<open>
  A call of PerformRestoration returns a boolean, or leaves by \<^verbatim>\<open>THROW_EXCEPTION\<close>,
  or stops at a failed \<^verbatim>\<open>DBG_ASSERT\<close>, or dereferences the null current iterate of
  the restoration data (line 338, reached with status SUCCESS).
\<close>

datatype outcome =
    Returned bool
  | Thrown exception
  | AssertionFailed
  | NullDereference

subsection \<open>The restoration phase object and its collaborators\<close>

text \<open>
  The members of the class, without the underscore that ends their names in the
  source. The member \<^verbatim>\<open>resto_alg_\<close> is the restoration algorithm; the model keeps
  of it the calls made to it, in order, with the options handed to Initialize.
\<close>

datatype alg_call = Alg_Initialize OptionsList string | Alg_Optimize bool

record MinC_1NrmRestorationPhase =
  resto_alg :: "alg_call list"
  resto_options :: OptionsList
  constr_mult_reset_threshold :: Number
  bound_mult_reset_threshold :: Number
  expect_infeasible_problem :: bool
  constr_viol_tol :: Number
  max_wall_time :: Number
  max_cpu_time :: Number
  resto_failure_feasibility_threshold :: Number
  count_restorations :: Index
  IpData :: IpoptData

text \<open>
  What the call reads from outside this file: the compile-time check level (the macro
  \<^verbatim>\<open>DBG_ASSERT\<close> of IpDebug.hpp tests its argument if \<^verbatim>\<open>IPOPT_CHECKLEVEL > 0\<close> and
  is empty otherwise), the two clocks, the calculated quantities \<^verbatim>\<open>IpCq()\<close> as
  functions of the outer data, the restoration algorithm and the least-square
  multiplier estimate. The restoration algorithm is given the options with their
  prefix, the seeded restoration data and the outer data (it holds references to
  them through the restoration NLP); it answers with its status, the restoration data
  and the outer data as it leaves them.
\<close>

record Environment =
  IPOPT_CHECKLEVEL :: nat
  WallclockTime :: Number
  CpuTime :: Number
  IsSquareProblem :: bool
  curr_constraint_violation :: "IpoptData \<Rightarrow> Number"
  unscaled_curr_nlp_constraint_violation :: "IpoptData \<Rightarrow> Number"
  curr_primal_infeasibility :: "IpoptData \<Rightarrow> Number"
  curr_slack_x_L :: "IpoptData \<Rightarrow> Vector"
  curr_slack_x_U :: "IpoptData \<Rightarrow> Vector"
  curr_slack_s_L :: "IpoptData \<Rightarrow> Vector"
  curr_slack_s_U :: "IpoptData \<Rightarrow> Vector"
  trial_slack_x_L :: "IpoptData \<Rightarrow> Vector"
  trial_slack_x_U :: "IpoptData \<Rightarrow> Vector"
  trial_slack_s_L :: "IpoptData \<Rightarrow> Vector"
  trial_slack_s_U :: "IpoptData \<Rightarrow> Vector"
  dual_frac_to_the_bound ::
    "IpoptData \<Rightarrow> Number \<Rightarrow> Vector \<Rightarrow> Vector \<Rightarrow> Vector \<Rightarrow> Vector \<Rightarrow> Number"
  resto_alg_Optimize ::
    "OptionsList \<Rightarrow> string \<Rightarrow> RestoIpoptData \<Rightarrow> IpoptData
       \<Rightarrow> SolverReturn \<times> RestoIpoptData \<times> IpoptData"
  least_square_mults :: "Number \<Rightarrow> IpoptData \<Rightarrow> IpoptData"

definition DBG_ASSERT :: "Environment \<Rightarrow> bool \<Rightarrow> bool" where
  \<comment> \<open>true if execution goes on past the assertion\<close>
  "DBG_ASSERT env test = (IPOPT_CHECKLEVEL env = 0 \<or> test)"

subsection \<open>InitializeImpl\<close>

definition InitializeImpl ::
  "RegisteredOptions \<Rightarrow> bool option \<Rightarrow> OptionsList \<Rightarrow> string
     \<Rightarrow> MinC_1NrmRestorationPhase \<Rightarrow> bool \<times> MinC_1NrmRestorationPhase" where
  \<comment> \<open>\<open>eq_mult_init\<close>: \<open>None\<close> if \<^verbatim>\<open>eq_mult_calculator_\<close> is null, else what its
      Initialize returns\<close>
  "InitializeImpl roptions eq_mult_init options prefix this =
     (let number = (\<lambda>tag. case GetNumericValue options tag prefix of
                            Some v \<Rightarrow> v | None \<Rightarrow> default_number roptions tag);
          this = this\<lparr>resto_options := options\<rparr>;
          this = this\<lparr>constr_mult_reset_threshold := number ''constr_mult_reset_threshold''\<rparr>;
          this = this\<lparr>bound_mult_reset_threshold := number ''bound_mult_reset_threshold''\<rparr>;
          this = this\<lparr>expect_infeasible_problem :=
                   (case GetBoolValue options ''expect_infeasible_problem'' prefix of
                      Some b \<Rightarrow> b
                    | None \<Rightarrow> default_bool roptions ''expect_infeasible_problem'')\<rparr>;
          this = this\<lparr>constr_viol_tol := number ''constr_viol_tol''\<rparr>;
          this = this\<lparr>max_wall_time := number ''max_wall_time''\<rparr>;
          this = this\<lparr>max_cpu_time := number ''max_cpu_time''\<rparr>;
          this = this\<lparr>resto_options :=
                   SetStringValue ''resto.start_with_resto'' ''no'' (resto_options this)\<rparr>;
          this = (case GetNumericValue options ''resto.theta_max_fact'' [] of
                    None \<Rightarrow> this\<lparr>resto_options :=
                              SetNumericValue ''resto.theta_max_fact'' (10 ^ 8) (resto_options this)\<rparr>
                  | Some _ \<Rightarrow> this);
          this = (case GetNumericValue options ''resto_failure_feasibility_threshold'' prefix of
                    None \<Rightarrow> this\<lparr>resto_failure_feasibility_threshold := 10 ^ 2 * tol (IpData this)\<rparr>
                  | Some v \<Rightarrow> this\<lparr>resto_failure_feasibility_threshold := v\<rparr>);
          this = this\<lparr>count_restorations := 0\<rparr>;
          retvalue = (case eq_mult_init of Some r \<Rightarrow> r | None \<Rightarrow> True)
      in (retvalue, this))"

subsection \<open>PerformRestoration\<close>

text \<open>Lines 127 to 137 and 139 to 149: the time left for the restoration phase.\<close>

definition wall_time_limit ::
  "Environment \<Rightarrow> MinC_1NrmRestorationPhase \<Rightarrow> outcome option \<times> MinC_1NrmRestorationPhase" where
  "wall_time_limit env this =
     (if max_wall_time this < 10 ^ 20 then
        (let elapsed = WallclockTime env - StartWallclockTime (IpData this) in
         if \<not> DBG_ASSERT env (elapsed \<ge> 0) then (Some AssertionFailed, this)
         else if elapsed \<ge> max_wall_time this
           then (Some (Thrown RESTORATION_WALLTIME_EXCEEDED), this)
         else (None, this\<lparr>resto_options :=
                 SetNumericValue ''resto.max_wall_time'' (max_wall_time this - elapsed)
                   (resto_options this)\<rparr>))
      else (None, this))"

definition cpu_time_limit ::
  "Environment \<Rightarrow> MinC_1NrmRestorationPhase \<Rightarrow> outcome option \<times> MinC_1NrmRestorationPhase" where
  "cpu_time_limit env this =
     (if max_cpu_time this < 10 ^ 20 then
        (let elapsed = CpuTime env - StartCpuTime (IpData this) in
         if \<not> DBG_ASSERT env (elapsed \<ge> 0) then (Some AssertionFailed, this)
         else if elapsed \<ge> max_cpu_time this
           then (Some (Thrown RESTORATION_CPUTIME_EXCEEDED), this)
         else (None, this\<lparr>resto_options :=
                 SetNumericValue ''resto.max_cpu_time'' (max_cpu_time this - elapsed)
                   (resto_options this)\<rparr>))
      else (None, this))"

text \<open>
  Lines 114 to 149, all that happens before the restoration algorithm is set up: the
  counter, the assertion on the constraint violation and the two time limits.
  \<open>Some\<close> outcome: the call ends there.
\<close>

definition PerformRestoration_entry ::
  "Environment \<Rightarrow> MinC_1NrmRestorationPhase \<Rightarrow> outcome option \<times> MinC_1NrmRestorationPhase" where
  "PerformRestoration_entry env this =
     (let this = this\<lparr>count_restorations := count_restorations this + 1\<rparr> in
      if \<not> DBG_ASSERT env (curr_constraint_violation env (IpData this) > 0)
        then (Some AssertionFailed, this)
      else (case wall_time_limit env this of
              (Some oc, this) \<Rightarrow> (Some oc, this)
            | (None, this) \<Rightarrow> cpu_time_limit env this))"

text \<open>Lines 151 to 175: the options the restoration algorithm is initialized with.\<close>

definition actual_resto_options :: "Environment \<Rightarrow> MinC_1NrmRestorationPhase \<Rightarrow> OptionsList" where
  "actual_resto_options env this =
     (let square_problem = IsSquareProblem env in
      if square_problem then
        SetNumericValueIfUnset ''required_infeasibility_reduction'' 0 (resto_options this)
      else if expect_infeasible_problem this then
        (let options =
           SetStringValueIfUnset ''resto.expect_infeasible_problem'' ''no'' (resto_options this)
         in if count_restorations this = 1
               \<and> curr_constraint_violation env (IpData this) > 1 / 10 ^ 3
            then SetNumericValueIfUnset ''required_infeasibility_reduction'' (1 / 10 ^ 3) options
            else options)
      else resto_options this)"

text \<open>Line 123 and lines 181 to 188: the new data of the restoration algorithm.\<close>

definition new_resto_ip_data :: "IpoptData \<Rightarrow> RestoIpoptData" where
  "new_resto_ip_data d =
     \<lparr>resto_curr = None,
      resto_iter_count = iter_count d + 1,
      resto_info_regu_x = info_regu_x d,
      resto_info_alpha_primal = info_alpha_primal d,
      resto_info_alpha_primal_char = info_alpha_primal_char d,
      resto_info_alpha_dual = info_alpha_dual d,
      resto_info_ls_count = info_ls_count d,
      resto_info_iters_since_header = info_iters_since_header d,
      resto_info_last_output = info_last_output d\<rparr>"

text \<open>Lines 177 to 192: Initialize and Optimize of the restoration algorithm.\<close>

definition solve_restoration ::
  "Environment \<Rightarrow> MinC_1NrmRestorationPhase
     \<Rightarrow> SolverReturn \<times> RestoIpoptData \<times> MinC_1NrmRestorationPhase" where
  "solve_restoration env this =
     (let actual = actual_resto_options env this;
          this = this\<lparr>resto_alg := resto_alg this @ [Alg_Initialize actual ''resto.'']\<rparr>;
          resto_ip_data = new_resto_ip_data (IpData this);
          (resto_status, resto_ip_data, d) =
             resto_alg_Optimize env actual ''resto.'' resto_ip_data (IpData this);
          this = this\<lparr>resto_alg := resto_alg this @ [Alg_Optimize True], IpData := d\<rparr>
      in (resto_status, resto_ip_data, this))"

text \<open>
  Lines 196 to 247: after a failure the values of the restoration iterate are copied
  into the outer data. The iterate of the restoration data has compound vectors by
  its type, so the assertions on the casts hold.
\<close>

definition copy_resto_curr :: "CompoundVector IteratesVector \<Rightarrow> IpoptData \<Rightarrow> IpoptData" where
  "copy_resto_curr resto_curr_it d =
     (let trial_it = trial d;
          trial_it = Set_primal (GetComp (iv_x resto_curr_it) 0) (GetComp (iv_s resto_curr_it) 0)
                       trial_it;
          trial_it = Set_eq_mult (GetComp (y_c resto_curr_it) 0) (GetComp (y_d resto_curr_it) 0)
                       trial_it;
          trial_it = Set_bound_mult
                       (GetComp (z_L resto_curr_it) 0) (GetComp (z_U resto_curr_it) 0)
                       (GetComp (v_L resto_curr_it) 0) (GetComp (v_U resto_curr_it) 0)
                       trial_it
      in AcceptTrialPoint (set_trial trial_it d))"

definition copy_after_failure :: "SolverReturn \<Rightarrow> RestoIpoptData \<Rightarrow> IpoptData \<Rightarrow> IpoptData" where
  "copy_after_failure resto_status resto_ip_data d =
     (if resto_status \<noteq> SUCCESS then
        (case resto_curr resto_ip_data of
           Some resto_curr_it \<Rightarrow> copy_resto_curr resto_curr_it d
         | None \<Rightarrow> d)
      else d)"

text \<open>
  Lines 249 to 332: what the status of the restoration algorithm leads to, an
  exception (\<open>Inl\<close>) or a value of \<^verbatim>\<open>retval\<close> (\<open>Inr\<close>).
\<close>

definition status_dispatch ::
  "Environment \<Rightarrow> bool \<Rightarrow> SolverReturn \<Rightarrow> MinC_1NrmRestorationPhase \<Rightarrow> exception + int" where
  "status_dispatch env square_problem resto_status this =
     (if resto_status = SUCCESS then Inr 0
      else if square_problem \<and> resto_status = STOP_AT_ACCEPTABLE_POINT
              \<and> unscaled_curr_nlp_constraint_violation env (IpData this) < constr_viol_tol this
        then Inl FEASIBILITY_PROBLEM_SOLVED
      else if resto_status = STOP_AT_TINY_STEP \<or> resto_status = STOP_AT_ACCEPTABLE_POINT then
        (let orig_primal_inf = curr_primal_infeasibility env (IpData this) in
         if orig_primal_inf \<le> resto_failure_feasibility_threshold this
           then Inl RESTORATION_CONVERGED_TO_FEASIBLE_POINT
           else Inl LOCALLY_INFEASIBLE)
      else if resto_status = MAXITER_EXCEEDED then Inl RESTORATION_MAXITER_EXCEEDED
      else if resto_status = CPUTIME_EXCEEDED then Inl RESTORATION_CPUTIME_EXCEEDED
      else if resto_status = WALLTIME_EXCEEDED then Inl RESTORATION_WALLTIME_EXCEEDED
      else if resto_status = LOCAL_INFEASIBILITY then Inl LOCALLY_INFEASIBLE
      else if resto_status = RESTORATION_FAILURE then Inl RESTORATION_FAILED
      else if resto_status = ERROR_IN_STEP_COMPUTATION then Inl RESTORATION_FAILED
      else if resto_status = USER_REQUESTED_STOP then Inl RESTORATION_USER_STOP
      else Inr 1)"

text \<open>
  Lines 366 to 379: the steps for the four families of bound multipliers, taking the
  move of the slacks in the restoration phase for one Newton step. (The other parts of
  the iterates vector \<^verbatim>\<open>delta\<close> stay zero and are not read.)
\<close>

definition delta_bound_multipliers ::
  "Environment \<Rightarrow> IpoptData \<Rightarrow> Vector \<times> Vector \<times> Vector \<times> Vector" where
  "delta_bound_multipliers env d =
     (let delta_z_L = ComputeBoundMultiplierStep d (z_L (curr d))
                        (curr_slack_x_L env d) (trial_slack_x_L env d);
          delta_z_U = ComputeBoundMultiplierStep d (z_U (curr d))
                        (curr_slack_x_U env d) (trial_slack_x_U env d);
          delta_v_L = ComputeBoundMultiplierStep d (v_L (curr d))
                        (curr_slack_s_L env d) (trial_slack_s_L env d);
          delta_v_U = ComputeBoundMultiplierStep d (v_U (curr d))
                        (curr_slack_s_U env d) (trial_slack_s_U env d)
      in (delta_z_L, delta_z_U, delta_v_L, delta_v_U))"

text \<open>Lines 386 to 391: the step size and the trial bound multipliers.\<close>

definition alpha_dual_of :: "Environment \<Rightarrow> IpoptData \<Rightarrow> Number" where
  "alpha_dual_of env d =
     (let (delta_z_L, delta_z_U, delta_v_L, delta_v_U) = delta_bound_multipliers env d
      in dual_frac_to_the_bound env d (curr_tau d) delta_z_L delta_z_U delta_v_L delta_v_U)"

definition step_bound_multipliers :: "Environment \<Rightarrow> IpoptData \<Rightarrow> IpoptData" where
  "step_bound_multipliers env d =
     (let (delta_z_L, delta_z_U, delta_v_L, delta_v_U) = delta_bound_multipliers env d;
          alpha_dual = alpha_dual_of env d
      in SetTrialBoundMultipliersFromStep alpha_dual delta_z_L delta_z_U delta_v_L delta_v_U d)"

text \<open>Lines 394 to 411: the largest trial bound multiplier and the reset.\<close>

definition bound_mult_max_of :: "IpoptData \<Rightarrow> Number" where
  "bound_mult_max_of d =
     Max4 (Amax (z_L (trial d))) (Amax (z_U (trial d)))
          (Amax (v_L (trial d))) (Amax (v_U (trial d)))"

definition update_bound_multipliers ::
  "Environment \<Rightarrow> MinC_1NrmRestorationPhase \<Rightarrow> IpoptData \<Rightarrow> IpoptData" where
  "update_bound_multipliers env this d =
     (let d = step_bound_multipliers env d;
          bound_mult_max = bound_mult_max_of d
      in if bound_mult_max > bound_mult_reset_threshold this then
           set_trial
             (Set_bound_mult
                (Set_scalar 1 (z_L (trial d))) (Set_scalar 1 (z_U (trial d)))
                (Set_scalar 1 (v_L (trial d))) (Set_scalar 1 (v_U (trial d)))
                (trial d)) d
         else d)"

text \<open>Lines 338 to 348: the primal variables of the restoration iterate become the trial point.\<close>

definition copy_primal :: "CompoundVector IteratesVector \<Rightarrow> IpoptData \<Rightarrow> IpoptData" where
  "copy_primal resto_curr_it d =
     set_trial
       (Set_primal (GetComp (iv_x resto_curr_it) 0) (GetComp (iv_s resto_curr_it) 0) (trial d)) d"

text \<open>Lines 419 to 424: the iteration counter and the output fields.\<close>

definition set_iteration_info :: "RestoIpoptData \<Rightarrow> IpoptData \<Rightarrow> IpoptData" where
  "set_iteration_info resto_ip_data d =
     (let d = d\<lparr>iter_count := resto_iter_count resto_ip_data - 1\<rparr>;
          d = d\<lparr>info_skip_output := True\<rparr>;
          d = d\<lparr>info_iters_since_header := resto_info_iters_since_header resto_ip_data\<rparr>;
          d = d\<lparr>info_last_output := resto_info_last_output resto_ip_data\<rparr>
      in d)"

text \<open>Lines 334 to 425: the block run with \<^verbatim>\<open>retval == 0\<close>.\<close>

definition copy_results ::
  "Environment \<Rightarrow> bool \<Rightarrow> RestoIpoptData \<Rightarrow> MinC_1NrmRestorationPhase
     \<Rightarrow> outcome \<times> MinC_1NrmRestorationPhase" where
  "copy_results env square_problem resto_ip_data this =
     (case resto_curr resto_ip_data of
        None \<Rightarrow> (NullDereference, this)
      | Some resto_curr_it \<Rightarrow>
          (let d = copy_primal resto_curr_it (IpData this)
           in if square_problem
                 \<and> unscaled_curr_nlp_constraint_violation env d \<le> constr_viol_tol this
              then (Thrown FEASIBILITY_PROBLEM_SOLVED, this\<lparr>IpData := AcceptTrialPoint d\<rparr>)
              else
                (let d = update_bound_multipliers env this d;
                     d = least_square_mults env (constr_mult_reset_threshold this) d;
                     d = set_iteration_info resto_ip_data d
                 in (Returned True, this\<lparr>IpData := d\<rparr>))))"

definition PerformRestoration ::
  "Environment \<Rightarrow> MinC_1NrmRestorationPhase \<Rightarrow> outcome \<times> MinC_1NrmRestorationPhase" where
  "PerformRestoration env this =
     (case PerformRestoration_entry env this of
        (Some oc, this) \<Rightarrow> (oc, this)
      | (None, this) \<Rightarrow>
          (let square_problem = IsSquareProblem env;
               (resto_status, resto_ip_data, this) = solve_restoration env this;
               this = this\<lparr>IpData := copy_after_failure resto_status resto_ip_data (IpData this)\<rparr>
           in case status_dispatch env square_problem resto_status this of
                Inl exc \<Rightarrow> (Thrown exc, this)
              | Inr retval \<Rightarrow>
                  if retval = 0 then copy_results env square_problem resto_ip_data this
                  else (Returned (retval = 0), this)))"

subsection \<open>Observing a call\<close>

text \<open>
  The restoration algorithm is reached if the entry of the call ends with no outcome.
  Then \<open>options_passed\<close> are the options it is initialized with, \<open>inner_solve\<close> is
  its run, \<open>inner_status\<close> the status it ends with,
  \<open>inner_data\<close> the restoration data it leaves, and \<open>at_dispatch\<close> the object
  when the status is looked at, that is after lines 196 to 247.
\<close>

definition resto_alg_reached :: "Environment \<Rightarrow> MinC_1NrmRestorationPhase \<Rightarrow> bool" where
  "resto_alg_reached env this = (fst (PerformRestoration_entry env this) = None)"

definition options_passed :: "Environment \<Rightarrow> MinC_1NrmRestorationPhase \<Rightarrow> OptionsList" where
  "options_passed env this = actual_resto_options env (snd (PerformRestoration_entry env this))"

definition inner_solve ::
  "Environment \<Rightarrow> MinC_1NrmRestorationPhase
     \<Rightarrow> SolverReturn \<times> RestoIpoptData \<times> MinC_1NrmRestorationPhase" where
  "inner_solve env this = solve_restoration env (snd (PerformRestoration_entry env this))"

definition inner_status :: "Environment \<Rightarrow> MinC_1NrmRestorationPhase \<Rightarrow> SolverReturn" where
  "inner_status env this = fst (inner_solve env this)"

definition inner_data :: "Environment \<Rightarrow> MinC_1NrmRestorationPhase \<Rightarrow> RestoIpoptData" where
  "inner_data env this = fst (snd (inner_solve env this))"

definition after_solve ::
  "Environment \<Rightarrow> MinC_1NrmRestorationPhase \<Rightarrow> MinC_1NrmRestorationPhase" where
  "after_solve env this = snd (snd (inner_solve env this))"

definition at_dispatch ::
  "Environment \<Rightarrow> MinC_1NrmRestorationPhase \<Rightarrow> MinC_1NrmRestorationPhase" where
  "at_dispatch env this =
     (after_solve env this)\<lparr>IpData :=
        copy_after_failure (inner_status env this) (inner_data env this)
          (IpData (after_solve env this))\<rparr>"

text \<open>The debug assertions of lines 119, 131 and 143 hold (or are compiled out).\<close>

definition entry_assertions :: "Environment \<Rightarrow> MinC_1NrmRestorationPhase \<Rightarrow> bool" where
  "entry_assertions env this =
     (DBG_ASSERT env (curr_constraint_violation env (IpData this) > 0)
      \<and> (max_wall_time this < 10 ^ 20
           \<longrightarrow> DBG_ASSERT env (WallclockTime env - StartWallclockTime (IpData this) \<ge> 0))
      \<and> (max_cpu_time this < 10 ^ 20
           \<longrightarrow> DBG_ASSERT env (CpuTime env - StartCpuTime (IpData this) \<ge> 0)))"

text \<open>The iterate made of block 0 of each vector of a restoration iterate.\<close>

definition first_blocks :: "CompoundVector IteratesVector \<Rightarrow> Vector IteratesVector" where
  "first_blocks it =
     \<lparr>iv_x = GetComp (iv_x it) 0, iv_s = GetComp (iv_s it) 0,
      y_c = GetComp (y_c it) 0, y_d = GetComp (y_d it) 0,
      z_L = GetComp (z_L it) 0, z_U = GetComp (z_U it) 0,
      v_L = GetComp (v_L it) 0, v_U = GetComp (v_U it) 0\<rparr>"

subsection \<open>A small problem to run the model on\<close>

text \<open>
  Two variables with lower bounds 0, the first with upper bound 10, one inequality
  with a slack between 0 and 10. The restoration algorithm of the example ends with
  a given status at a fixed iterate, five iterations on.
\<close>

definition ex_iterate :: "Vector IteratesVector" where
  "ex_iterate =
     \<lparr>iv_x = [1, 2], iv_s = [1], y_c = [0], y_d = [0],
      z_L = [1, 1], z_U = [1], v_L = [1], v_U = [1]\<rparr>"

definition ex_resto_iterate :: "CompoundVector IteratesVector" where
  "ex_resto_iterate =
     \<lparr>iv_x = CompoundVector [2, 3] ([0] # [0] # [0] # [0] # []), iv_s = CompoundVector [4] [],
      y_c = CompoundVector [5] [], y_d = CompoundVector [6] [],
      z_L = CompoundVector [7, 8] ([1] # [1] # [1] # [1] # []), z_U = CompoundVector [9] [],
      v_L = CompoundVector [10] [], v_U = CompoundVector [11] []\<rparr>"

definition ex_data :: IpoptData where
  "ex_data =
     \<lparr>curr = ex_iterate, trial = ex_iterate, curr_mu = 1 / 10, curr_tau = 99 / 100,
      tol = 1 / 10 ^ 8, iter_count = 7, info_regu_x = 0, info_alpha_primal = 1,
      info_alpha_primal_char = CHR ''f'', info_alpha_dual = 1, info_ls_count = 1,
      info_iters_since_header = 7, info_last_output = 0, info_skip_output = False,
      StartWallclockTime = 100, StartCpuTime = 50\<rparr>"

definition ex_env :: "SolverReturn \<Rightarrow> Environment" where
  "ex_env status =
     \<lparr>IPOPT_CHECKLEVEL = 0, WallclockTime = 130, CpuTime = 60, IsSquareProblem = False,
      curr_constraint_violation = (\<lambda>d. 1 / 100),
      unscaled_curr_nlp_constraint_violation = (\<lambda>d. 1 / 10 ^ 9),
      curr_primal_infeasibility = (\<lambda>d. 5 / 10 ^ 9),
      curr_slack_x_L = (\<lambda>d. iv_x (curr d)),
      curr_slack_x_U = (\<lambda>d. map (\<lambda>v. 10 - v) (take 1 (iv_x (curr d)))),
      curr_slack_s_L = (\<lambda>d. iv_s (curr d)),
      curr_slack_s_U = (\<lambda>d. map (\<lambda>v. 10 - v) (iv_s (curr d))),
      trial_slack_x_L = (\<lambda>d. iv_x (trial d)),
      trial_slack_x_U = (\<lambda>d. map (\<lambda>v. 10 - v) (take 1 (iv_x (trial d)))),
      trial_slack_s_L = (\<lambda>d. iv_s (trial d)),
      trial_slack_s_U = (\<lambda>d. map (\<lambda>v. 10 - v) (iv_s (trial d))),
      dual_frac_to_the_bound = (\<lambda>d tau dzL dzU dvL dvU. 1 / 4),
      resto_alg_Optimize =
        (\<lambda>options prefix resto_ip_data d.
           (status,
            resto_ip_data\<lparr>resto_curr := Some ex_resto_iterate,
                          resto_iter_count := resto_iter_count resto_ip_data + 5\<rparr>,
            d)),
      least_square_mults = (\<lambda>threshold d. d\<lparr>trial := Set_eq_mult [0] [0] (trial d)\<rparr>)\<rparr>"

definition ex_env_infeasible :: Environment where
  "ex_env_infeasible = (ex_env STOP_AT_TINY_STEP)\<lparr>curr_primal_infeasibility := (\<lambda>d. 5)\<rparr>"

definition ex_env_zero_violation :: Environment where
  "ex_env_zero_violation = (ex_env SUCCESS)\<lparr>curr_constraint_violation := (\<lambda>d. 0)\<rparr>"

definition ex_env_square :: "SolverReturn \<Rightarrow> Number \<Rightarrow> Environment" where
  "ex_env_square status violation =
     (ex_env status)\<lparr>IsSquareProblem := True,
                     unscaled_curr_nlp_constraint_violation := (\<lambda>d. violation)\<rparr>"

definition ex_options :: OptionsList where
  "ex_options = [''resto.start_with_resto'' \<mapsto> StringValue ''no'',
                 ''resto.theta_max_fact'' \<mapsto> NumericValue (10 ^ 8)]"

definition ex_phase :: MinC_1NrmRestorationPhase where
  "ex_phase =
     \<lparr>resto_alg = [], resto_options = ex_options,
      constr_mult_reset_threshold = 0, bound_mult_reset_threshold = 10 ^ 3,
      expect_infeasible_problem = False, constr_viol_tol = 1 / 10 ^ 6,
      max_wall_time = 10 ^ 20, max_cpu_time = 10 ^ 20,
      resto_failure_feasibility_threshold = 1 / 10 ^ 6,
      count_restorations = 0, IpData = ex_data\<rparr>"

definition ex_registry :: RegisteredOptions where
  "ex_registry =
     RegisterOptions
       \<lparr>default_number =
          (\<lambda>tag. if tag = ''constr_viol_tol'' then 1 / 10 ^ 4 else 10 ^ 20),
        default_bool = (\<lambda>tag. False)\<rparr>"

definition ex_phase_user_reduction :: MinC_1NrmRestorationPhase where
  "ex_phase_user_reduction =
     ex_phase\<lparr>resto_options :=
       ex_options(''required_infeasibility_reduction'' \<mapsto> NumericValue (9 / 10))\<rparr>"

section \<open>Properties\<close>

subsection \<open>What the parts of a call leave unchanged, and the call in terms of its parts\<close>

lemma entry_fields:
  assumes "PerformRestoration_entry env this = (r, this1)"
  shows "resto_alg this1 = resto_alg this"
    and "IpData this1 = IpData this"
    and "resto_failure_feasibility_threshold this1 = resto_failure_feasibility_threshold this"
    and "constr_viol_tol this1 = constr_viol_tol this"
    and "bound_mult_reset_threshold this1 = bound_mult_reset_threshold this"
    and "constr_mult_reset_threshold this1 = constr_mult_reset_threshold this"
    and "count_restorations this1 = count_restorations this + 1"
  using assms
  by (auto simp: PerformRestoration_entry_def wall_time_limit_def cpu_time_limit_def Let_def
      split: if_splits prod.splits option.splits)

lemma solve_fields:
  assumes "solve_restoration env this = (st, rd, this1)"
  shows "resto_alg this1
           = resto_alg this @ [Alg_Initialize (actual_resto_options env this) ''resto.'', Alg_Optimize True]"
    and "resto_failure_feasibility_threshold this1 = resto_failure_feasibility_threshold this"
    and "constr_viol_tol this1 = constr_viol_tol this"
    and "bound_mult_reset_threshold this1 = bound_mult_reset_threshold this"
    and "constr_mult_reset_threshold this1 = constr_mult_reset_threshold this"
    and "resto_options this1 = resto_options this"
  using assms
  by (auto simp: solve_restoration_def Let_def split: prod.splits)

lemma at_dispatch_fields:
  shows "resto_failure_feasibility_threshold (at_dispatch env this)
           = resto_failure_feasibility_threshold this"
    and "constr_viol_tol (at_dispatch env this) = constr_viol_tol this"
    and "bound_mult_reset_threshold (at_dispatch env this) = bound_mult_reset_threshold this"
    and "constr_mult_reset_threshold (at_dispatch env this) = constr_mult_reset_threshold this"
    and "resto_alg (at_dispatch env this)
           = resto_alg this @ [Alg_Initialize
                 (actual_resto_options env (snd (PerformRestoration_entry env this))) ''resto.'',
               Alg_Optimize True]"
proof -
  obtain r this1 where e: "PerformRestoration_entry env this = (r, this1)"
    by (cases "PerformRestoration_entry env this")
  obtain st rd this2 where s: "solve_restoration env this1 = (st, rd, this2)"
    by (cases "solve_restoration env this1")
  note ef = entry_fields [OF e] and sf = solve_fields [OF s]
  show "resto_failure_feasibility_threshold (at_dispatch env this)
           = resto_failure_feasibility_threshold this"
    by (simp add: at_dispatch_def after_solve_def inner_solve_def e s ef sf)
  show "constr_viol_tol (at_dispatch env this) = constr_viol_tol this"
    by (simp add: at_dispatch_def after_solve_def inner_solve_def e s ef sf)
  show "bound_mult_reset_threshold (at_dispatch env this) = bound_mult_reset_threshold this"
    by (simp add: at_dispatch_def after_solve_def inner_solve_def e s ef sf)
  show "constr_mult_reset_threshold (at_dispatch env this) = constr_mult_reset_threshold this"
    by (simp add: at_dispatch_def after_solve_def inner_solve_def e s ef sf)
  show "resto_alg (at_dispatch env this)
           = resto_alg this @ [Alg_Initialize
                 (actual_resto_options env (snd (PerformRestoration_entry env this))) ''resto.'',
               Alg_Optimize True]"
    by (simp add: at_dispatch_def after_solve_def inner_solve_def e s ef sf)
qed

lemma PerformRestoration_reached:
  assumes "resto_alg_reached env this"
  shows "PerformRestoration env this =
     (case status_dispatch env (IsSquareProblem env) (inner_status env this) (at_dispatch env this) of
        Inl exc \<Rightarrow> (Thrown exc, at_dispatch env this)
      | Inr retval \<Rightarrow>
          if retval = 0
          then copy_results env (IsSquareProblem env) (inner_data env this) (at_dispatch env this)
          else (Returned False, at_dispatch env this))"
proof -
  obtain this1 where e: "PerformRestoration_entry env this = (None, this1)"
    using assms by (cases "PerformRestoration_entry env this") (simp add: resto_alg_reached_def)
  obtain st rd this2 where s: "solve_restoration env this1 = (st, rd, this2)"
    by (cases "solve_restoration env this1")
  show ?thesis
    by (simp add: PerformRestoration_def e s at_dispatch_def after_solve_def inner_status_def
        inner_data_def inner_solve_def Let_def split: sum.splits)
qed

lemma PerformRestoration_not_reached:
  assumes "fst (PerformRestoration_entry env this) = Some oc"
  shows "PerformRestoration env this = (oc, snd (PerformRestoration_entry env this))"
  using assms by (cases "PerformRestoration_entry env this") (simp add: PerformRestoration_def)

lemma copy_results_fields:
  shows "resto_failure_feasibility_threshold (snd (copy_results env sq rd this))
           = resto_failure_feasibility_threshold this"
    and "resto_alg (snd (copy_results env sq rd this)) = resto_alg this"
  by (simp_all add: copy_results_def Let_def split: option.splits)

lemma IteratesVector_all_set:
  "(Set_bound_mult zl zu vl vu (Set_eq_mult yc yd (Set_primal xv sv (it :: 'v IteratesVector))))
     = \<lparr>iv_x = xv, iv_s = sv, y_c = yc, y_d = yd, z_L = zl, z_U = zu, v_L = vl, v_U = vu\<rparr>"
  by (cases it) (simp add: Set_primal_def Set_eq_mult_def Set_bound_mult_def)

lemma first_blocks_copy:
  "copy_resto_curr it d = AcceptTrialPoint (set_trial (first_blocks it) d)"
  by (simp add: copy_resto_curr_def first_blocks_def IteratesVector_all_set Let_def)

lemma PerformRestoration_resto_alg:
  assumes "resto_alg_reached env this"
  shows "resto_alg (snd (PerformRestoration env this))
           = resto_alg this @ [Alg_Initialize (options_passed env this) ''resto.'', Alg_Optimize True]"
  by (simp add: PerformRestoration_reached [OF assms] copy_results_fields at_dispatch_fields
      options_passed_def split: sum.splits)

lemma entry_resto_options:
  assumes "PerformRestoration_entry env this = (r, this1)"
    and "tag \<noteq> ''resto.max_wall_time''" and "tag \<noteq> ''resto.max_cpu_time''"
  shows "resto_options this1 tag = resto_options this tag"
  using assms
  by (auto simp: PerformRestoration_entry_def wall_time_limit_def cpu_time_limit_def Let_def
      SetNumericValue_def split: if_splits prod.splits option.splits)

lemma at_dispatch_success:
  assumes "inner_status env this = SUCCESS"
  shows "at_dispatch env this = after_solve env this"
  using assms by (simp add: at_dispatch_def copy_after_failure_def)

lemma after_solve_fields:
  shows "constr_viol_tol (after_solve env this) = constr_viol_tol this"
    and "bound_mult_reset_threshold (after_solve env this) = bound_mult_reset_threshold this"
    and "constr_mult_reset_threshold (after_solve env this) = constr_mult_reset_threshold this"
  using at_dispatch_fields(2,3,4) [of env this] by (simp_all add: at_dispatch_def)

lemma update_bound_multipliers_threshold:
  assumes "bound_mult_reset_threshold this = bound_mult_reset_threshold that"
  shows "update_bound_multipliers env this d = update_bound_multipliers env that d"
  using assms by (simp add: update_bound_multipliers_def)

lemma PerformRestoration_success:
  assumes "resto_alg_reached env this" and "inner_status env this = SUCCESS"
    and "resto_curr (inner_data env this) = Some it"
  shows "PerformRestoration env this =
     (let d = copy_primal it (IpData (after_solve env this)) in
      if IsSquareProblem env \<and> unscaled_curr_nlp_constraint_violation env d \<le> constr_viol_tol this
      then (Thrown FEASIBILITY_PROBLEM_SOLVED, (after_solve env this)\<lparr>IpData := AcceptTrialPoint d\<rparr>)
      else (Returned True,
            (after_solve env this)\<lparr>IpData :=
               set_iteration_info (inner_data env this)
                 (least_square_mults env (constr_mult_reset_threshold this)
                    (update_bound_multipliers env this d))\<rparr>))"
proof -
  have u: "update_bound_multipliers env (after_solve env this) d
             = update_bound_multipliers env this d" for d
    by (rule update_bound_multipliers_threshold) (simp add: after_solve_fields)
  show ?thesis
    using assms(2,3)
    by (simp add: PerformRestoration_reached [OF assms(1)] status_dispatch_def copy_results_def
        at_dispatch_success after_solve_fields u Let_def)
qed

lemma Amax_Max: "Amax v = Max (insert 0 (abs ` set v))"
proof (induction v)
  case Nil
  show ?case by simp
next
  case (Cons a v)
  have "Max (insert 0 (abs ` set (a # v))) = Max (insert \<bar>a\<bar> (insert 0 (abs ` set v)))"
    by (simp add: insert_commute)
  also have "\<dots> = max \<bar>a\<bar> (Max (insert 0 (abs ` set v)))"
    by (rule Max_insert) simp_all
  finally show ?case using Cons.IH by simp
qed

lemma bound_mult_max_of_Max:
  "bound_mult_max_of d
     = Max (insert 0 (abs ` (set (z_L (trial d)) \<union> set (z_U (trial d))
                              \<union> set (v_L (trial d)) \<union> set (v_U (trial d)))))"
proof -
  have m: "max (Max (insert 0 A)) (Max (insert 0 B)) = Max (insert 0 (A \<union> B))"
    if "finite A" "finite B" for A B :: "real set"
  proof -
    have "Max (insert 0 A \<union> insert 0 B) = max (Max (insert 0 A)) (Max (insert 0 B))"
      using that by (intro Max_Un) simp_all
    then show ?thesis by simp
  qed
  show ?thesis
    by (simp add: bound_mult_max_of_def Max4_def Amax_Max m image_Un Un_assoc)
qed

lemmas ex_defs = ex_env_def ex_phase_def ex_data_def ex_iterate_def ex_resto_iterate_def ex_options_def
lemmas entry_defs = PerformRestoration_entry_def wall_time_limit_def cpu_time_limit_def DBG_ASSERT_def
lemmas solve_defs = inner_status_def inner_data_def inner_solve_def solve_restoration_def
  new_resto_ip_data_def

subsection \<open>The status of the restoration algorithm\<close>

text \<open>
  Claim C1. On a problem that is not square, when the restoration algorithm ends with
  the status "stopped at tiny step" or "stopped at acceptable point", the call throws
  RESTORATION\_CONVERGED\_TO\_FEASIBLE\_POINT if the primal infeasibility of the outer
  data (as they are when the status is looked at) is at most
  \<open>resto_failure_feasibility_threshold\<close>, and LOCALLY\_INFEASIBLE otherwise.
\<close>

theorem C1_small_infeasibility_decides:
  assumes "resto_alg_reached env this"
    and "\<not> IsSquareProblem env"
    and "inner_status env this = STOP_AT_TINY_STEP
         \<or> inner_status env this = STOP_AT_ACCEPTABLE_POINT"
  shows "fst (PerformRestoration env this) =
           (if curr_primal_infeasibility env (IpData (at_dispatch env this))
                 \<le> resto_failure_feasibility_threshold this
            then Thrown RESTORATION_CONVERGED_TO_FEASIBLE_POINT
            else Thrown LOCALLY_INFEASIBLE)"
  using assms(2,3)
  by (auto simp: PerformRestoration_reached [OF assms(1)] status_dispatch_def Let_def
      at_dispatch_fields)

theorem C1_small_infeasibility_decides_witness:
  "resto_alg_reached (ex_env STOP_AT_TINY_STEP) ex_phase
   \<and> \<not> IsSquareProblem (ex_env STOP_AT_TINY_STEP)
   \<and> inner_status (ex_env STOP_AT_TINY_STEP) ex_phase = STOP_AT_TINY_STEP
   \<and> fst (PerformRestoration (ex_env STOP_AT_TINY_STEP) ex_phase)
       = Thrown RESTORATION_CONVERGED_TO_FEASIBLE_POINT
   \<and> fst (PerformRestoration ex_env_infeasible ex_phase) = Thrown LOCALLY_INFEASIBLE"
proof -
  let ?e = "ex_env STOP_AT_TINY_STEP"
  let ?e5 = ex_env_infeasible
  have r: "resto_alg_reached ?e ex_phase" "resto_alg_reached ?e5 ex_phase"
    by (simp_all add: resto_alg_reached_def entry_defs ex_defs ex_env_infeasible_def)
  have q: "\<not> IsSquareProblem ?e" "\<not> IsSquareProblem ?e5"
    by (simp_all add: ex_env_def ex_env_infeasible_def)
  have s: "inner_status ?e ex_phase = STOP_AT_TINY_STEP"
    "inner_status ?e5 ex_phase = STOP_AT_TINY_STEP"
    by (simp_all add: solve_defs ex_env_def ex_env_infeasible_def Let_def)
  have a: "fst (PerformRestoration ?e ex_phase) = Thrown RESTORATION_CONVERGED_TO_FEASIBLE_POINT"
    using C1_small_infeasibility_decides [OF r(1) q(1)] s(1)
    by (simp add: ex_env_def ex_phase_def)
  have b: "fst (PerformRestoration ?e5 ex_phase) = Thrown LOCALLY_INFEASIBLE"
    using C1_small_infeasibility_decides [OF r(2) q(2)] s(2)
    by (simp add: ex_env_def ex_env_infeasible_def ex_phase_def)
  show ?thesis using r q s a b by simp
qed

subsection \<open>The step for the bound multipliers\<close>

lemma ComputeBoundMultiplierStep_length:
  assumes "length curr_z = length curr_slack" and "length trial_slack = length curr_slack"
  shows "length (ComputeBoundMultiplierStep d curr_z curr_slack trial_slack) = length curr_slack"
  using assms
  by (simp add: ComputeBoundMultiplierStep_def Copy_def Axpy_def ElementWiseMultiply_def
      AddScalar_def ElementWiseDivide_def Let_def)

text \<open>
  Claim C2. Entry by entry, ComputeBoundMultiplierStep gives
  \<open>((curr_slack - trial_slack) * curr_z + mu) / curr_slack - curr_z\<close> with the barrier
  parameter \<open>mu\<close> of the outer data; where the slack has not moved this is
  \<open>mu / curr_slack - curr_z\<close>.
\<close>

theorem C2_bound_multiplier_step:
  assumes "length curr_z = length curr_slack" and "length trial_slack = length curr_slack"
    and "i < length curr_slack"
  shows "ComputeBoundMultiplierStep d curr_z curr_slack trial_slack ! i
           = ((curr_slack ! i - trial_slack ! i) * curr_z ! i + curr_mu d) / curr_slack ! i
             - curr_z ! i
         \<and> (curr_slack ! i = trial_slack ! i \<longrightarrow>
              ComputeBoundMultiplierStep d curr_z curr_slack trial_slack ! i
                = curr_mu d / curr_slack ! i - curr_z ! i)"
  using assms
  by (simp add: ComputeBoundMultiplierStep_def Copy_def Axpy_def ElementWiseMultiply_def
      AddScalar_def ElementWiseDivide_def Let_def)

theorem C2_bound_multiplier_step_witness:
  "length [2, 3 :: real] = length [4, 5 :: real] \<and> length [4, 1 :: real] = length [4, 5 :: real]
   \<and> (0 :: nat) < length [4, 5 :: real]
   \<and> ComputeBoundMultiplierStep ex_data [2, 3] [4, 5] [4, 1] ! 0 = (1 / 10) / 4 - 2
   \<and> ComputeBoundMultiplierStep ex_data [2, 3] [4, 5] [4, 1] ! 1 = ((5 - 1) * 3 + 1 / 10) / 5 - 3"
  using C2_bound_multiplier_step [of "[2, 3]" "[4, 5]" "[4, 1]" 0 ex_data]
    C2_bound_multiplier_step [of "[2, 3]" "[4, 5]" "[4, 1]" 1 ex_data]
  by (simp add: ex_data_def)

subsection \<open>The entry of the call\<close>

text \<open>
  Claim C3. A time limit counts as set if it is below \<open>10 ^ 20\<close>. If the wall-clock
  limit is set and the time elapsed since the start of the overall algorithm has reached
  it, the call throws RESTORATION\_WALLTIME\_EXCEEDED; if that is not so and the CPU time
  limit is set and reached, the call throws RESTORATION\_CPUTIME\_EXCEEDED. In both
  cases the restoration algorithm has been neither initialized nor run. (With debug
  checks compiled in, the assertions of the entry are taken to hold.)
\<close>

theorem C3_time_exceeded_at_entry:
  assumes "entry_assertions env this"
  shows "(max_wall_time this < 10 ^ 20
            \<and> WallclockTime env - StartWallclockTime (IpData this) \<ge> max_wall_time this
          \<longrightarrow> fst (PerformRestoration env this) = Thrown RESTORATION_WALLTIME_EXCEEDED
              \<and> resto_alg (snd (PerformRestoration env this)) = resto_alg this)
       \<and> (\<not> (max_wall_time this < 10 ^ 20
               \<and> WallclockTime env - StartWallclockTime (IpData this) \<ge> max_wall_time this)
            \<and> max_cpu_time this < 10 ^ 20
            \<and> CpuTime env - StartCpuTime (IpData this) \<ge> max_cpu_time this
          \<longrightarrow> fst (PerformRestoration env this) = Thrown RESTORATION_CPUTIME_EXCEEDED
              \<and> resto_alg (snd (PerformRestoration env this)) = resto_alg this)"
  using assms
  by (auto simp: entry_assertions_def PerformRestoration_def PerformRestoration_entry_def
      wall_time_limit_def cpu_time_limit_def Let_def)

theorem C3_time_exceeded_at_entry_witness:
  "entry_assertions (ex_env SUCCESS) (ex_phase\<lparr>max_wall_time := 20\<rparr>)
   \<and> fst (PerformRestoration (ex_env SUCCESS) (ex_phase\<lparr>max_wall_time := 20\<rparr>))
       = Thrown RESTORATION_WALLTIME_EXCEEDED
   \<and> resto_alg (snd (PerformRestoration (ex_env SUCCESS) (ex_phase\<lparr>max_wall_time := 20\<rparr>))) = []
   \<and> entry_assertions (ex_env SUCCESS) (ex_phase\<lparr>max_wall_time := 40, max_cpu_time := 10\<rparr>)
   \<and> fst (PerformRestoration (ex_env SUCCESS) (ex_phase\<lparr>max_wall_time := 40, max_cpu_time := 10\<rparr>))
       = Thrown RESTORATION_CPUTIME_EXCEEDED
   \<and> resto_alg (snd (PerformRestoration (ex_env SUCCESS)
        (ex_phase\<lparr>max_wall_time := 40, max_cpu_time := 10\<rparr>))) = []"
proof -
  let ?e = "ex_env SUCCESS"
  let ?p = "ex_phase\<lparr>max_wall_time := 20\<rparr>"
  let ?q = "ex_phase\<lparr>max_wall_time := 40, max_cpu_time := 10\<rparr>"
  have a: "entry_assertions ?e ?p" "entry_assertions ?e ?q"
    by (simp_all add: entry_assertions_def DBG_ASSERT_def ex_env_def)
  show ?thesis
    using C3_time_exceeded_at_entry [OF a(1)] C3_time_exceeded_at_entry [OF a(2)] a
    by (simp add: ex_env_def ex_phase_def ex_data_def)
qed

text \<open>
  Claim C9, as stated: a call made with constraint violation zero is rejected and never
  returns normally. With the debug checks compiled out (check level 0) the assertion of
  line 119 is empty: the example call has violation 0, passes the entry and returns true.
\<close>

theorem C9_zero_violation_counterexample:
  "curr_constraint_violation ex_env_zero_violation (IpData ex_phase) = 0
   \<and> PerformRestoration_entry ex_env_zero_violation ex_phase
       = (None, ex_phase\<lparr>count_restorations := 1\<rparr>)
   \<and> fst (PerformRestoration ex_env_zero_violation ex_phase) = Returned True"
proof -
  have e: "PerformRestoration_entry ex_env_zero_violation ex_phase
       = (None, ex_phase\<lparr>count_restorations := 1\<rparr>)"
    by (simp add: entry_defs ex_env_zero_violation_def ex_env_def ex_phase_def)
  then have r: "resto_alg_reached ex_env_zero_violation ex_phase"
    by (simp add: resto_alg_reached_def)
  have s: "inner_status ex_env_zero_violation ex_phase = SUCCESS"
    by (simp add: solve_defs ex_env_zero_violation_def ex_env_def Let_def)
  have d: "resto_curr (inner_data ex_env_zero_violation ex_phase) = Some ex_resto_iterate"
    by (simp add: solve_defs ex_env_zero_violation_def ex_env_def Let_def)
  have "fst (PerformRestoration ex_env_zero_violation ex_phase) = Returned True"
    by (simp add: PerformRestoration_reached [OF r] s d status_dispatch_def copy_results_def Let_def)
      (simp add: ex_env_zero_violation_def ex_env_def)
  with e show ?thesis by (simp add: ex_env_zero_violation_def ex_env_def)
qed

text \<open>
  Claim C9, amended. The positive constraint violation is a debug assertion: with a
  check level above 0, a call made with a violation that is not positive stops at the
  assertion, right after the counter has been increased; with check level 0 no call
  stops at an assertion.
\<close>

theorem C9_violation_assertion:
  "(0 < IPOPT_CHECKLEVEL env \<and> curr_constraint_violation env (IpData this) \<le> 0
      \<longrightarrow> PerformRestoration env this
            = (AssertionFailed, this\<lparr>count_restorations := count_restorations this + 1\<rparr>))
   \<and> (IPOPT_CHECKLEVEL env = 0 \<longrightarrow> fst (PerformRestoration env this) \<noteq> AssertionFailed)"
proof -
  have "fst (PerformRestoration env this) \<noteq> AssertionFailed" if c: "IPOPT_CHECKLEVEL env = 0"
  proof (cases "resto_alg_reached env this")
    case True
    show ?thesis
      by (simp add: PerformRestoration_reached [OF True] copy_results_def Let_def
          split: sum.splits option.splits)
  next
    case False
    then obtain oc where o: "fst (PerformRestoration_entry env this) = Some oc"
      by (auto simp: resto_alg_reached_def)
    then have "oc \<noteq> AssertionFailed"
      using c
      by (auto simp: PerformRestoration_entry_def wall_time_limit_def cpu_time_limit_def
          DBG_ASSERT_def Let_def split: if_splits prod.splits option.splits)
    then show ?thesis by (simp add: PerformRestoration_not_reached [OF o])
  qed
  then show ?thesis
    by (auto simp: PerformRestoration_def PerformRestoration_entry_def DBG_ASSERT_def Let_def)
qed

theorem C9_violation_assertion_witness:
  "0 < IPOPT_CHECKLEVEL (ex_env_zero_violation\<lparr>IPOPT_CHECKLEVEL := 1\<rparr>)
   \<and> curr_constraint_violation (ex_env_zero_violation\<lparr>IPOPT_CHECKLEVEL := 1\<rparr>) (IpData ex_phase) \<le> 0
   \<and> PerformRestoration (ex_env_zero_violation\<lparr>IPOPT_CHECKLEVEL := 1\<rparr>) ex_phase
       = (AssertionFailed, ex_phase\<lparr>count_restorations := 1\<rparr>)
   \<and> IPOPT_CHECKLEVEL ex_env_zero_violation = 0
   \<and> fst (PerformRestoration ex_env_zero_violation ex_phase) \<noteq> AssertionFailed"
  using C9_violation_assertion [of "ex_env_zero_violation\<lparr>IPOPT_CHECKLEVEL := 1\<rparr>" ex_phase]
    C9_violation_assertion [of ex_env_zero_violation ex_phase]
  by (simp add: ex_env_zero_violation_def ex_env_def ex_phase_def)

subsection \<open>The restoration iterate after a failure\<close>

lemma at_dispatch_failure:
  assumes "inner_status env this \<noteq> SUCCESS" and "resto_curr (inner_data env this) = Some it"
  shows "IpData (at_dispatch env this)
           = AcceptTrialPoint (set_trial (first_blocks it) (IpData (after_solve env this)))"
    and "curr (IpData (at_dispatch env this)) = first_blocks it"
    and "trial (IpData (at_dispatch env this)) = first_blocks it"
  using assms
  by (simp_all add: at_dispatch_def copy_after_failure_def first_blocks_copy AcceptTrialPoint_def
      set_trial_def)

lemma PerformRestoration_failure:
  assumes "resto_alg_reached env this" and "inner_status env this \<noteq> SUCCESS"
  shows "snd (PerformRestoration env this) = at_dispatch env this"
    and "fst (PerformRestoration env this) = Returned False
         \<or> (\<exists>exc. fst (PerformRestoration env this) = Thrown exc)"
  using assms(2)
  by (auto simp: PerformRestoration_reached [OF assms(1)] status_dispatch_def Let_def
      split: sum.splits if_splits)

text \<open>
  Claim C7. When the restoration algorithm ends with a status other than SUCCESS and its
  data hold a current iterate, block 0 of the eight vectors of that iterate (x, s, y\_c,
  y\_d, z\_L, z\_U, v\_L, v\_U) is set as the trial iterate of the outer data and the trial
  point is accepted; the call then ends by an exception or by returning false, with
  the outer data left so.
\<close>

theorem C7_iterate_copied_on_failure:
  assumes "resto_alg_reached env this"
    and "inner_status env this \<noteq> SUCCESS"
    and "resto_curr (inner_data env this) = Some it"
  shows "IpData (snd (PerformRestoration env this))
           = AcceptTrialPoint (set_trial (first_blocks it) (IpData (after_solve env this)))
         \<and> curr (IpData (snd (PerformRestoration env this))) = first_blocks it
         \<and> (fst (PerformRestoration env this) = Returned False
              \<or> (\<exists>exc. fst (PerformRestoration env this) = Thrown exc))"
  using PerformRestoration_failure [OF assms(1,2)] at_dispatch_failure [OF assms(2,3)]
  by simp

theorem C7_iterate_copied_on_failure_witness:
  "resto_alg_reached (ex_env MAXITER_EXCEEDED) ex_phase
   \<and> inner_status (ex_env MAXITER_EXCEEDED) ex_phase \<noteq> SUCCESS
   \<and> resto_curr (inner_data (ex_env MAXITER_EXCEEDED) ex_phase) = Some ex_resto_iterate
   \<and> curr (IpData (snd (PerformRestoration (ex_env MAXITER_EXCEEDED) ex_phase)))
       = \<lparr>iv_x = [2, 3], iv_s = [4], y_c = [5], y_d = [6],
          z_L = [7, 8], z_U = [9], v_L = [10], v_U = [11]\<rparr>
   \<and> fst (PerformRestoration (ex_env MAXITER_EXCEEDED) ex_phase)
       = Thrown RESTORATION_MAXITER_EXCEEDED"
proof -
  let ?e = "ex_env MAXITER_EXCEEDED"
  have r: "resto_alg_reached ?e ex_phase"
    by (simp add: resto_alg_reached_def entry_defs ex_defs)
  have s: "inner_status ?e ex_phase = MAXITER_EXCEEDED"
    by (simp add: solve_defs ex_env_def Let_def)
  then have n: "inner_status ?e ex_phase \<noteq> SUCCESS" by simp
  have d: "resto_curr (inner_data ?e ex_phase) = Some ex_resto_iterate"
    by (simp add: solve_defs ex_env_def Let_def)
  have f: "fst (PerformRestoration ?e ex_phase) = Thrown RESTORATION_MAXITER_EXCEEDED"
    by (simp add: PerformRestoration_reached [OF r] s status_dispatch_def)
  show ?thesis
    using C7_iterate_copied_on_failure [OF r n d] r n d f
    by (simp add: first_blocks_def ex_resto_iterate_def AcceptTrialPoint_def set_trial_def)
qed

text \<open>
  Claim C10. When the restoration algorithm ends with a status that is none of SUCCESS,
  STOP\_AT\_ACCEPTABLE\_POINT, STOP\_AT\_TINY\_STEP, MAXITER\_EXCEEDED, CPUTIME\_EXCEEDED,
  WALLTIME\_EXCEEDED, LOCAL\_INFEASIBILITY, RESTORATION\_FAILURE,
  ERROR\_IN\_STEP\_COMPUTATION and USER\_REQUESTED\_STOP, the call returns false and
  throws nothing; the outer data are those the restoration algorithm left, with the
  restoration iterate copied and accepted if there is one.
\<close>

theorem C10_other_status_returns_false:
  assumes "resto_alg_reached env this"
    and "inner_status env this \<notin>
           {SUCCESS, STOP_AT_ACCEPTABLE_POINT, STOP_AT_TINY_STEP, MAXITER_EXCEEDED,
            CPUTIME_EXCEEDED, WALLTIME_EXCEEDED, LOCAL_INFEASIBILITY, RESTORATION_FAILURE,
            ERROR_IN_STEP_COMPUTATION, USER_REQUESTED_STOP}"
  shows "fst (PerformRestoration env this) = Returned False
         \<and> IpData (snd (PerformRestoration env this))
             = (case resto_curr (inner_data env this) of
                  Some it \<Rightarrow>
                    AcceptTrialPoint (set_trial (first_blocks it) (IpData (after_solve env this)))
                | None \<Rightarrow> IpData (after_solve env this))"
proof -
  have n: "inner_status env this \<noteq> SUCCESS" using assms(2) by simp
  have "fst (PerformRestoration env this) = Returned False"
    using assms(2)
    by (simp add: PerformRestoration_reached [OF assms(1)] status_dispatch_def)
  moreover have "IpData (at_dispatch env this)
             = (case resto_curr (inner_data env this) of
                  Some it \<Rightarrow>
                    AcceptTrialPoint (set_trial (first_blocks it) (IpData (after_solve env this)))
                | None \<Rightarrow> IpData (after_solve env this))"
    using n
    by (simp add: at_dispatch_def copy_after_failure_def first_blocks_copy split: option.splits)
  ultimately show ?thesis
    using PerformRestoration_failure(1) [OF assms(1) n] by simp
qed

theorem C10_other_status_returns_false_witness:
  "resto_alg_reached (ex_env INTERNAL_ERROR) ex_phase
   \<and> inner_status (ex_env INTERNAL_ERROR) ex_phase = INTERNAL_ERROR
   \<and> fst (PerformRestoration (ex_env INTERNAL_ERROR) ex_phase) = Returned False
   \<and> curr (IpData (snd (PerformRestoration (ex_env INTERNAL_ERROR) ex_phase)))
       = \<lparr>iv_x = [2, 3], iv_s = [4], y_c = [5], y_d = [6],
          z_L = [7, 8], z_U = [9], v_L = [10], v_U = [11]\<rparr>"
proof -
  let ?e = "ex_env INTERNAL_ERROR"
  have r: "resto_alg_reached ?e ex_phase"
    by (simp add: resto_alg_reached_def entry_defs ex_defs)
  have s: "inner_status ?e ex_phase = INTERNAL_ERROR"
    by (simp add: solve_defs ex_env_def Let_def)
  have d: "resto_curr (inner_data ?e ex_phase) = Some ex_resto_iterate"
    by (simp add: solve_defs ex_env_def Let_def)
  show ?thesis
    using C10_other_status_returns_false [OF r] r s d
    by (simp add: first_blocks_def ex_resto_iterate_def AcceptTrialPoint_def set_trial_def)
qed

subsection \<open>The threshold on the primal infeasibility\<close>

lemma PerformRestoration_threshold:
  "resto_failure_feasibility_threshold (snd (PerformRestoration env this))
     = resto_failure_feasibility_threshold this"
proof (cases "resto_alg_reached env this")
  case True
  show ?thesis
    by (simp add: PerformRestoration_reached [OF True] copy_results_fields at_dispatch_fields
        split: sum.splits)
next
  case False
  then obtain oc where o: "fst (PerformRestoration_entry env this) = Some oc"
    by (auto simp: resto_alg_reached_def)
  obtain r this1 where e: "PerformRestoration_entry env this = (r, this1)"
    by (cases "PerformRestoration_entry env this")
  show ?thesis
    using entry_fields(3) [OF e] by (simp add: PerformRestoration_not_reached [OF o] e)
qed

text \<open>
  Claim C8. InitializeImpl sets \<open>resto_failure_feasibility_threshold\<close> to 100 times the
  tolerance \<open>tol\<close> of the outer data if the options hold no value for it (and to the
  value they hold otherwise); a call of PerformRestoration does not change it.
\<close>

theorem C8_default_failure_threshold:
  "(GetNumericValue options ''resto_failure_feasibility_threshold'' prefix = None
      \<longrightarrow> resto_failure_feasibility_threshold
            (snd (InitializeImpl roptions eq_mult_init options prefix this))
          = 100 * tol (IpData this))
   \<and> (GetNumericValue options ''resto_failure_feasibility_threshold'' prefix = Some v
      \<longrightarrow> resto_failure_feasibility_threshold
            (snd (InitializeImpl roptions eq_mult_init options prefix this)) = v)
   \<and> resto_failure_feasibility_threshold (snd (PerformRestoration env that))
       = resto_failure_feasibility_threshold that"
  by (simp add: InitializeImpl_def Let_def PerformRestoration_threshold split: option.splits)

theorem C8_default_failure_threshold_witness:
  "GetNumericValue Map.empty ''resto_failure_feasibility_threshold'' [] = None
   \<and> resto_failure_feasibility_threshold
       (snd (InitializeImpl ex_registry None Map.empty []
          (ex_phase\<lparr>resto_failure_feasibility_threshold := 0\<rparr>)))
       = 1 / 10 ^ 6
   \<and> GetNumericValue [''resto_failure_feasibility_threshold'' \<mapsto> NumericValue 3]
        ''resto_failure_feasibility_threshold'' [] = Some 3
   \<and> resto_failure_feasibility_threshold
       (snd (InitializeImpl ex_registry None
          [''resto_failure_feasibility_threshold'' \<mapsto> NumericValue 3] [] ex_phase))
       = 3
   \<and> resto_failure_feasibility_threshold (snd (PerformRestoration (ex_env SUCCESS) ex_phase))
       = 1 / 10 ^ 6"
proof -
  have a: "GetNumericValue Map.empty ''resto_failure_feasibility_threshold'' [] = None"
    by (simp add: GetNumericValue_def find_tag_def)
  have b: "GetNumericValue [''resto_failure_feasibility_threshold'' \<mapsto> NumericValue 3]
        ''resto_failure_feasibility_threshold'' [] = Some 3"
    by (simp add: GetNumericValue_def find_tag_def)
  show ?thesis
    using a b
      C8_default_failure_threshold [of Map.empty "[]" ex_registry None
        "ex_phase\<lparr>resto_failure_feasibility_threshold := 0\<rparr>" 3 "ex_env SUCCESS" ex_phase]
      C8_default_failure_threshold [of
        "[''resto_failure_feasibility_threshold'' \<mapsto> NumericValue 3]" "[]" ex_registry None
        ex_phase 3 "ex_env SUCCESS" ex_phase]
    by (simp add: ex_phase_def ex_data_def)
qed

subsection \<open>The options of the restoration algorithm\<close>

text \<open>
  Claim C6, as stated: on a square problem the options handed to the restoration
  algorithm have \<open>required_infeasibility_reduction\<close> equal to 0. The value is set
  by SetNumericValueIfUnset: in the example the user has set the option to 0.9, and 0.9
  is what the restoration algorithm is initialized with.
\<close>

theorem C6_user_value_counterexample:
  "IsSquareProblem (ex_env_square SUCCESS 1)
   \<and> resto_alg (snd (PerformRestoration (ex_env_square SUCCESS 1) ex_phase_user_reduction))
       = [Alg_Initialize (options_passed (ex_env_square SUCCESS 1) ex_phase_user_reduction)
            ''resto.'', Alg_Optimize True]
   \<and> GetNumericValue (options_passed (ex_env_square SUCCESS 1) ex_phase_user_reduction)
        ''required_infeasibility_reduction'' [] = Some (9 / 10)
   \<and> GetNumericValue (options_passed (ex_env_square SUCCESS 1) ex_phase_user_reduction)
        ''required_infeasibility_reduction'' ''resto.'' = Some (9 / 10)"
proof -
  let ?e = "ex_env_square SUCCESS 1"
  have e: "PerformRestoration_entry ?e ex_phase_user_reduction
             = (None, ex_phase_user_reduction\<lparr>count_restorations := 1\<rparr>)"
    by (simp add: entry_defs ex_env_square_def ex_env_def ex_phase_user_reduction_def ex_phase_def)
  then have r: "resto_alg_reached ?e ex_phase_user_reduction"
    by (simp add: resto_alg_reached_def)
  have l: "resto_alg (snd (PerformRestoration ?e ex_phase_user_reduction))
       = [Alg_Initialize (options_passed ?e ex_phase_user_reduction) ''resto.'', Alg_Optimize True]"
    using PerformRestoration_resto_alg [OF r]
    by (simp add: ex_phase_user_reduction_def ex_phase_def)
  have o: "options_passed ?e ex_phase_user_reduction
             = ex_options(''required_infeasibility_reduction'' \<mapsto> NumericValue (9 / 10))"
    unfolding options_passed_def e
    by (simp add: actual_resto_options_def SetNumericValueIfUnset_def
        GetNumericValue_def find_tag_def ex_env_square_def ex_env_def ex_phase_user_reduction_def
        ex_phase_def)
  have g: "GetNumericValue (options_passed ?e ex_phase_user_reduction)
        ''required_infeasibility_reduction'' [] = Some (9 / 10)"
    "GetNumericValue (options_passed ?e ex_phase_user_reduction)
        ''required_infeasibility_reduction'' ''resto.'' = Some (9 / 10)"
    by (simp_all add: o GetNumericValue_def find_tag_def ex_options_def)
  show ?thesis using l g by (simp add: ex_env_square_def)
qed

text \<open>
  Claim C6, amended. On a square problem the restoration algorithm is initialized (with
  the prefix "resto.") and run once, and the options it is initialized with hold for
  \<open>required_infeasibility_reduction\<close> the value 0 if the options of the restoration
  phase held no value for it, and the value they held otherwise.
\<close>

theorem C6_square_reduction_unless_set:
  assumes "resto_alg_reached env this" and "IsSquareProblem env"
  shows "resto_alg (snd (PerformRestoration env this))
           = resto_alg this @ [Alg_Initialize (options_passed env this) ''resto.'', Alg_Optimize True]
         \<and> GetNumericValue (options_passed env this) ''required_infeasibility_reduction'' []
             = Some (case GetNumericValue (resto_options this)
                            ''required_infeasibility_reduction'' [] of
                       Some v \<Rightarrow> v
                     | None \<Rightarrow> 0)"
proof -
  obtain r this1 where e: "PerformRestoration_entry env this = (r, this1)"
    by (cases "PerformRestoration_entry env this")
  have t: "resto_options this1 ''required_infeasibility_reduction''
             = resto_options this ''required_infeasibility_reduction''"
    by (rule entry_resto_options [OF e]) simp_all
  have "GetNumericValue (options_passed env this) ''required_infeasibility_reduction'' []
          = Some (case GetNumericValue (resto_options this)
                         ''required_infeasibility_reduction'' [] of
                    Some v \<Rightarrow> v
                  | None \<Rightarrow> 0)"
    using assms(2) t
    by (simp add: options_passed_def e actual_resto_options_def SetNumericValueIfUnset_def
        SetNumericValue_def GetNumericValue_def find_tag_def
        split: option.splits OptionValue.splits)
  then show ?thesis using PerformRestoration_resto_alg [OF assms(1)] by simp
qed

theorem C6_square_reduction_unless_set_witness:
  "resto_alg_reached (ex_env_square SUCCESS 1) ex_phase
   \<and> IsSquareProblem (ex_env_square SUCCESS 1)
   \<and> resto_alg (snd (PerformRestoration (ex_env_square SUCCESS 1) ex_phase))
       = [Alg_Initialize (options_passed (ex_env_square SUCCESS 1) ex_phase) ''resto.'',
          Alg_Optimize True]
   \<and> GetNumericValue (options_passed (ex_env_square SUCCESS 1) ex_phase)
        ''required_infeasibility_reduction'' [] = Some 0"
proof -
  let ?e = "ex_env_square SUCCESS 1"
  have r: "resto_alg_reached ?e ex_phase"
    by (simp add: resto_alg_reached_def entry_defs ex_env_square_def ex_defs)
  have q: "IsSquareProblem ?e" by (simp add: ex_env_square_def)
  have g: "GetNumericValue (resto_options ex_phase) ''required_infeasibility_reduction'' [] = None"
    by (simp add: GetNumericValue_def find_tag_def ex_phase_def ex_options_def)
  show ?thesis
    using C6_square_reduction_unless_set [OF r q] r q g by (simp add: ex_phase_def)
qed

subsection \<open>Square problems\<close>

text \<open>
  Claim C5, as stated: a square problem is never reported as ordinary success while the
  violation exceeds \<open>constr_viol_tol\<close>. In the example the problem is square, the
  restoration algorithm ends with SUCCESS and the unscaled constraint violation is 1,
  above the tolerance \<open>1 / 10 ^ 6\<close>: the call returns true.
\<close>

theorem C5_square_success_counterexample:
  "IsSquareProblem (ex_env_square SUCCESS 1)
   \<and> inner_status (ex_env_square SUCCESS 1) ex_phase = SUCCESS
   \<and> constr_viol_tol ex_phase
       < unscaled_curr_nlp_constraint_violation (ex_env_square SUCCESS 1)
           (IpData (snd (PerformRestoration (ex_env_square SUCCESS 1) ex_phase)))
   \<and> fst (PerformRestoration (ex_env_square SUCCESS 1) ex_phase) = Returned True"
proof -
  let ?e = "ex_env_square SUCCESS 1"
  have r: "resto_alg_reached ?e ex_phase"
    by (simp add: resto_alg_reached_def entry_defs ex_env_square_def ex_defs)
  have s: "inner_status ?e ex_phase = SUCCESS"
    by (simp add: solve_defs ex_env_square_def ex_env_def Let_def)
  have d: "resto_curr (inner_data ?e ex_phase) = Some ex_resto_iterate"
    by (simp add: solve_defs ex_env_square_def ex_env_def Let_def)
  have v: "unscaled_curr_nlp_constraint_violation ?e = (\<lambda>d. 1)"
    by (simp add: ex_env_square_def)
  have "fst (PerformRestoration ?e ex_phase) = Returned True"
    by (simp add: PerformRestoration_success [OF r s d] Let_def v) (simp add: ex_phase_def)
  then show ?thesis using s by (simp add: v) (simp add: ex_env_square_def ex_phase_def)
qed

text \<open>
  Claim C5, amended. On a square problem: if the restoration algorithm ends with SUCCESS,
  the primal variables of its iterate are set as the trial point, and if the unscaled
  constraint violation of the outer data is then at most \<open>constr_viol_tol\<close>, the trial
  point is accepted and FEASIBILITY\_PROBLEM\_SOLVED is thrown, before any bound
  multiplier is updated; if the violation is above \<open>constr_viol_tol\<close>, the call goes on
  and returns true. If the restoration algorithm ends with STOP\_AT\_ACCEPTABLE\_POINT and
  the violation of the outer data (after the copy of lines 196 to 247) is below
  \<open>constr_viol_tol\<close>, FEASIBILITY\_PROBLEM\_SOLVED is thrown.
\<close>

theorem C5_square_problem_solved:
  assumes "resto_alg_reached env this" and "IsSquareProblem env"
  shows "(inner_status env this = SUCCESS \<and> resto_curr (inner_data env this) = Some it
            \<and> unscaled_curr_nlp_constraint_violation env
                 (copy_primal it (IpData (after_solve env this))) \<le> constr_viol_tol this
          \<longrightarrow> fst (PerformRestoration env this) = Thrown FEASIBILITY_PROBLEM_SOLVED
              \<and> IpData (snd (PerformRestoration env this))
                  = AcceptTrialPoint (copy_primal it (IpData (after_solve env this)))
              \<and> iv_x (curr (IpData (snd (PerformRestoration env this)))) = GetComp (iv_x it) 0
              \<and> iv_s (curr (IpData (snd (PerformRestoration env this)))) = GetComp (iv_s it) 0)
       \<and> (inner_status env this = SUCCESS \<and> resto_curr (inner_data env this) = Some it
            \<and> unscaled_curr_nlp_constraint_violation env
                 (copy_primal it (IpData (after_solve env this))) > constr_viol_tol this
          \<longrightarrow> fst (PerformRestoration env this) = Returned True)
       \<and> (inner_status env this = STOP_AT_ACCEPTABLE_POINT
            \<and> unscaled_curr_nlp_constraint_violation env (IpData (at_dispatch env this))
                 < constr_viol_tol this
          \<longrightarrow> PerformRestoration env this
                = (Thrown FEASIBILITY_PROBLEM_SOLVED, at_dispatch env this))"
proof (intro conjI impI)
  assume a: "inner_status env this = SUCCESS \<and> resto_curr (inner_data env this) = Some it
            \<and> unscaled_curr_nlp_constraint_violation env
                 (copy_primal it (IpData (after_solve env this))) \<le> constr_viol_tol this"
  then have p: "PerformRestoration env this
      = (Thrown FEASIBILITY_PROBLEM_SOLVED,
         (after_solve env this)\<lparr>IpData :=
            AcceptTrialPoint (copy_primal it (IpData (after_solve env this)))\<rparr>)"
    using assms(2) by (simp add: PerformRestoration_success [OF assms(1)] Let_def)
  show "fst (PerformRestoration env this) = Thrown FEASIBILITY_PROBLEM_SOLVED"
    by (simp add: p)
  show "IpData (snd (PerformRestoration env this))
          = AcceptTrialPoint (copy_primal it (IpData (after_solve env this)))"
    by (simp add: p)
  show "iv_x (curr (IpData (snd (PerformRestoration env this)))) = GetComp (iv_x it) 0"
    by (simp add: p AcceptTrialPoint_def copy_primal_def set_trial_def Set_primal_def)
  show "iv_s (curr (IpData (snd (PerformRestoration env this)))) = GetComp (iv_s it) 0"
    by (simp add: p AcceptTrialPoint_def copy_primal_def set_trial_def Set_primal_def)
next
  assume "inner_status env this = SUCCESS \<and> resto_curr (inner_data env this) = Some it
            \<and> unscaled_curr_nlp_constraint_violation env
                 (copy_primal it (IpData (after_solve env this))) > constr_viol_tol this"
  then show "fst (PerformRestoration env this) = Returned True"
    by (simp add: PerformRestoration_success [OF assms(1)] Let_def)
next
  assume "inner_status env this = STOP_AT_ACCEPTABLE_POINT
            \<and> unscaled_curr_nlp_constraint_violation env (IpData (at_dispatch env this))
                 < constr_viol_tol this"
  then show "PerformRestoration env this
                = (Thrown FEASIBILITY_PROBLEM_SOLVED, at_dispatch env this)"
    using assms(2)
    by (simp add: PerformRestoration_reached [OF assms(1)] status_dispatch_def at_dispatch_fields)
qed

theorem C5_square_problem_solved_witness:
  "resto_alg_reached (ex_env_square SUCCESS (1 / 10 ^ 9)) ex_phase
   \<and> IsSquareProblem (ex_env_square SUCCESS (1 / 10 ^ 9))
   \<and> inner_status (ex_env_square SUCCESS (1 / 10 ^ 9)) ex_phase = SUCCESS
   \<and> fst (PerformRestoration (ex_env_square SUCCESS (1 / 10 ^ 9)) ex_phase)
       = Thrown FEASIBILITY_PROBLEM_SOLVED
   \<and> iv_x (curr (IpData (snd (PerformRestoration (ex_env_square SUCCESS (1 / 10 ^ 9)) ex_phase))))
       = [2, 3]
   \<and> inner_status (ex_env_square SUCCESS 1) ex_phase = SUCCESS
   \<and> fst (PerformRestoration (ex_env_square SUCCESS 1) ex_phase) = Returned True
   \<and> inner_status (ex_env_square STOP_AT_ACCEPTABLE_POINT (1 / 10 ^ 9)) ex_phase
       = STOP_AT_ACCEPTABLE_POINT
   \<and> fst (PerformRestoration (ex_env_square STOP_AT_ACCEPTABLE_POINT (1 / 10 ^ 9)) ex_phase)
       = Thrown FEASIBILITY_PROBLEM_SOLVED"
proof -
  have r: "resto_alg_reached (ex_env_square st v) ex_phase" for st v
    by (simp add: resto_alg_reached_def entry_defs ex_env_square_def ex_defs)
  have q: "IsSquareProblem (ex_env_square st v)" for st v
    by (simp add: ex_env_square_def)
  have s: "inner_status (ex_env_square st v) ex_phase = st" for st v
    by (simp add: solve_defs ex_env_square_def ex_env_def Let_def)
  have d: "resto_curr (inner_data (ex_env_square st v) ex_phase) = Some ex_resto_iterate" for st v
    by (simp add: solve_defs ex_env_square_def ex_env_def Let_def)
  have u: "unscaled_curr_nlp_constraint_violation (ex_env_square st v) = (\<lambda>d. v)" for st v
    by (simp add: ex_env_square_def)
  have t: "constr_viol_tol ex_phase = 1 / 10 ^ 6" by (simp add: ex_phase_def)
  show ?thesis
    using C5_square_problem_solved [OF r q, of SUCCESS "1 / 10 ^ 9" ex_resto_iterate]
      C5_square_problem_solved [OF r q, of SUCCESS 1 ex_resto_iterate]
      C5_square_problem_solved [OF r q, of STOP_AT_ACCEPTABLE_POINT "1 / 10 ^ 9" ex_resto_iterate]
      r q
    by (simp add: s d u t)
      (simp add: ex_resto_iterate_def AcceptTrialPoint_def copy_primal_def set_trial_def
        Set_primal_def)
qed

subsection \<open>The reset of the bound multipliers\<close>

text \<open>
  Claim C4. After a successful restoration phase (status SUCCESS, no exit for a square
  problem) the call returns true with the outer data that \<open>update_bound_multipliers\<close>
  gives, handed on to the least-square estimate and the iteration output. There the
  trial bound multipliers after the step are \<open>curr_z + alpha_dual * delta_z\<close> in each of
  the four families; \<open>bound_mult_max\<close> is the largest absolute value of their entries; if
  it exceeds \<open>bound_mult_reset_threshold\<close>, each of the four trial vectors becomes the
  vector of ones of its dimension; otherwise the values after the step are kept.
\<close>

theorem C4_bound_multiplier_reset:
  "(bound_mult_reset_threshold this < bound_mult_max_of (step_bound_multipliers env d)
      \<longrightarrow> z_L (trial (update_bound_multipliers env this d))
            = replicate (length (z_L (trial (step_bound_multipliers env d)))) 1
        \<and> z_U (trial (update_bound_multipliers env this d))
            = replicate (length (z_U (trial (step_bound_multipliers env d)))) 1
        \<and> v_L (trial (update_bound_multipliers env this d))
            = replicate (length (v_L (trial (step_bound_multipliers env d)))) 1
        \<and> v_U (trial (update_bound_multipliers env this d))
            = replicate (length (v_U (trial (step_bound_multipliers env d)))) 1)
   \<and> (\<not> bound_mult_reset_threshold this < bound_mult_max_of (step_bound_multipliers env d)
      \<longrightarrow> update_bound_multipliers env this d = step_bound_multipliers env d)
   \<and> (case delta_bound_multipliers env d of
         (delta_z_L, delta_z_U, delta_v_L, delta_v_U) \<Rightarrow>
           z_L (trial (step_bound_multipliers env d))
             = map2 (\<lambda>z dz. z + alpha_dual_of env d * dz) (z_L (curr d)) delta_z_L
         \<and> z_U (trial (step_bound_multipliers env d))
             = map2 (\<lambda>z dz. z + alpha_dual_of env d * dz) (z_U (curr d)) delta_z_U
         \<and> v_L (trial (step_bound_multipliers env d))
             = map2 (\<lambda>z dz. z + alpha_dual_of env d * dz) (v_L (curr d)) delta_v_L
         \<and> v_U (trial (step_bound_multipliers env d))
             = map2 (\<lambda>z dz. z + alpha_dual_of env d * dz) (v_U (curr d)) delta_v_U)
   \<and> bound_mult_max_of (step_bound_multipliers env d)
       = Max (insert 0 (abs ` (set (z_L (trial (step_bound_multipliers env d)))
                               \<union> set (z_U (trial (step_bound_multipliers env d)))
                               \<union> set (v_L (trial (step_bound_multipliers env d)))
                               \<union> set (v_U (trial (step_bound_multipliers env d))))))
   \<and> (resto_alg_reached env this \<and> inner_status env this = SUCCESS
        \<and> resto_curr (inner_data env this) = Some it
        \<and> \<not> (IsSquareProblem env
              \<and> unscaled_curr_nlp_constraint_violation env
                   (copy_primal it (IpData (after_solve env this))) \<le> constr_viol_tol this)
      \<longrightarrow> PerformRestoration env this
            = (Returned True,
               (after_solve env this)\<lparr>IpData :=
                  set_iteration_info (inner_data env this)
                    (least_square_mults env (constr_mult_reset_threshold this)
                       (update_bound_multipliers env this
                          (copy_primal it (IpData (after_solve env this)))))\<rparr>))"
proof (intro conjI impI)
  assume "bound_mult_reset_threshold this < bound_mult_max_of (step_bound_multipliers env d)"
  then have u: "update_bound_multipliers env this d
      = set_trial
          (Set_bound_mult
             (Set_scalar 1 (z_L (trial (step_bound_multipliers env d))))
             (Set_scalar 1 (z_U (trial (step_bound_multipliers env d))))
             (Set_scalar 1 (v_L (trial (step_bound_multipliers env d))))
             (Set_scalar 1 (v_U (trial (step_bound_multipliers env d))))
             (trial (step_bound_multipliers env d)))
          (step_bound_multipliers env d)"
    by (simp add: update_bound_multipliers_def Let_def)
  show "z_L (trial (update_bound_multipliers env this d))
          = replicate (length (z_L (trial (step_bound_multipliers env d)))) 1"
    by (simp add: u set_trial_def Set_bound_mult_def Set_scalar_def)
  show "z_U (trial (update_bound_multipliers env this d))
          = replicate (length (z_U (trial (step_bound_multipliers env d)))) 1"
    by (simp add: u set_trial_def Set_bound_mult_def Set_scalar_def)
  show "v_L (trial (update_bound_multipliers env this d))
          = replicate (length (v_L (trial (step_bound_multipliers env d)))) 1"
    by (simp add: u set_trial_def Set_bound_mult_def Set_scalar_def)
  show "v_U (trial (update_bound_multipliers env this d))
          = replicate (length (v_U (trial (step_bound_multipliers env d)))) 1"
    by (simp add: u set_trial_def Set_bound_mult_def Set_scalar_def)
next
  assume "\<not> bound_mult_reset_threshold this < bound_mult_max_of (step_bound_multipliers env d)"
  then show "update_bound_multipliers env this d = step_bound_multipliers env d"
    by (simp add: update_bound_multipliers_def Let_def)
next
  show "case delta_bound_multipliers env d of
         (delta_z_L, delta_z_U, delta_v_L, delta_v_U) \<Rightarrow>
           z_L (trial (step_bound_multipliers env d))
             = map2 (\<lambda>z dz. z + alpha_dual_of env d * dz) (z_L (curr d)) delta_z_L
         \<and> z_U (trial (step_bound_multipliers env d))
             = map2 (\<lambda>z dz. z + alpha_dual_of env d * dz) (z_U (curr d)) delta_z_U
         \<and> v_L (trial (step_bound_multipliers env d))
             = map2 (\<lambda>z dz. z + alpha_dual_of env d * dz) (v_L (curr d)) delta_v_L
         \<and> v_U (trial (step_bound_multipliers env d))
             = map2 (\<lambda>z dz. z + alpha_dual_of env d * dz) (v_U (curr d)) delta_v_U"
    by (simp add: step_bound_multipliers_def SetTrialBoundMultipliersFromStep_def set_trial_def
        Set_bound_mult_def AddTwoVectors_def Let_def split: prod.splits)
next
  show "bound_mult_max_of (step_bound_multipliers env d)
       = Max (insert 0 (abs ` (set (z_L (trial (step_bound_multipliers env d)))
                               \<union> set (z_U (trial (step_bound_multipliers env d)))
                               \<union> set (v_L (trial (step_bound_multipliers env d)))
                               \<union> set (v_U (trial (step_bound_multipliers env d))))))"
    by (rule bound_mult_max_of_Max)
next
  assume a: "resto_alg_reached env this \<and> inner_status env this = SUCCESS
        \<and> resto_curr (inner_data env this) = Some it
        \<and> \<not> (IsSquareProblem env
              \<and> unscaled_curr_nlp_constraint_violation env
                   (copy_primal it (IpData (after_solve env this))) \<le> constr_viol_tol this)"
  then have r: "resto_alg_reached env this" and s: "inner_status env this = SUCCESS"
    and c: "resto_curr (inner_data env this) = Some it" by simp_all
  show "PerformRestoration env this
            = (Returned True,
               (after_solve env this)\<lparr>IpData :=
                  set_iteration_info (inner_data env this)
                    (least_square_mults env (constr_mult_reset_threshold this)
                       (update_bound_multipliers env this
                          (copy_primal it (IpData (after_solve env this)))))\<rparr>)"
    using a by (simp add: PerformRestoration_success [OF r s c] Let_def)
qed

theorem C4_bound_multiplier_reset_witness:
  "bound_mult_max_of (step_bound_multipliers (ex_env SUCCESS) (copy_primal ex_resto_iterate ex_data))
     = 301 / 360
   \<and> trial (update_bound_multipliers (ex_env SUCCESS) ex_phase
        (copy_primal ex_resto_iterate ex_data))
       = \<lparr>iv_x = [2, 3], iv_s = [4], y_c = [0], y_d = [0],
          z_L = [21 / 40, 51 / 80], z_U = [281 / 360], v_L = [1 / 40], v_U = [301 / 360]\<rparr>
   \<and> z_L (trial (update_bound_multipliers (ex_env SUCCESS)
        (ex_phase\<lparr>bound_mult_reset_threshold := 1 / 2\<rparr>)
        (copy_primal ex_resto_iterate ex_data))) = [1, 1]
   \<and> z_U (trial (update_bound_multipliers (ex_env SUCCESS)
        (ex_phase\<lparr>bound_mult_reset_threshold := 1 / 2\<rparr>)
        (copy_primal ex_resto_iterate ex_data))) = [1]
   \<and> v_L (trial (update_bound_multipliers (ex_env SUCCESS)
        (ex_phase\<lparr>bound_mult_reset_threshold := 1 / 2\<rparr>)
        (copy_primal ex_resto_iterate ex_data))) = [1]
   \<and> v_U (trial (update_bound_multipliers (ex_env SUCCESS)
        (ex_phase\<lparr>bound_mult_reset_threshold := 1 / 2\<rparr>)
        (copy_primal ex_resto_iterate ex_data))) = [1]
   \<and> resto_alg_reached (ex_env SUCCESS) ex_phase
   \<and> inner_status (ex_env SUCCESS) ex_phase = SUCCESS
   \<and> fst (PerformRestoration (ex_env SUCCESS) ex_phase) = Returned True
   \<and> z_L (trial (IpData (snd (PerformRestoration (ex_env SUCCESS) ex_phase))))
       = [21 / 40, 51 / 80]"
proof -
  let ?e = "ex_env SUCCESS"
  let ?d = "copy_primal ex_resto_iterate ex_data"
  let ?p = "ex_phase\<lparr>bound_mult_reset_threshold := 1 / 2\<rparr>"
  have st: "trial (step_bound_multipliers ?e ?d)
      = \<lparr>iv_x = [2, 3], iv_s = [4], y_c = [0], y_d = [0],
         z_L = [21 / 40, 51 / 80], z_U = [281 / 360], v_L = [1 / 40], v_U = [301 / 360]\<rparr>"
    by (simp add: step_bound_multipliers_def alpha_dual_of_def delta_bound_multipliers_def
        ComputeBoundMultiplierStep_def Copy_def Axpy_def ElementWiseMultiply_def AddScalar_def
        ElementWiseDivide_def SetTrialBoundMultipliersFromStep_def AddTwoVectors_def
        Set_bound_mult_def set_trial_def copy_primal_def Set_primal_def Let_def ex_defs)
  have m: "bound_mult_max_of (step_bound_multipliers ?e ?d) = 301 / 360"
    by (simp add: bound_mult_max_of_def st Max4_def)
  have t: "bound_mult_reset_threshold ex_phase = 10 ^ 3" "bound_mult_reset_threshold ?p = 1 / 2"
    by (simp_all add: ex_phase_def)
  have r: "resto_alg_reached ?e ex_phase"
    by (simp add: resto_alg_reached_def entry_defs ex_defs)
  have s: "inner_status ?e ex_phase = SUCCESS"
    by (simp add: solve_defs ex_env_def Let_def)
  have c: "resto_curr (inner_data ?e ex_phase) = Some ex_resto_iterate"
    by (simp add: solve_defs ex_env_def Let_def)
  have a: "IpData (after_solve ?e ex_phase) = ex_data"
    by (simp add: after_solve_def inner_solve_def solve_restoration_def entry_defs Let_def
        ex_env_def ex_phase_def)
  have q: "\<not> IsSquareProblem ?e" by (simp add: ex_env_def)
  have k: "update_bound_multipliers ?e ex_phase ?d = step_bound_multipliers ?e ?d"
    using C4_bound_multiplier_reset [of ex_phase ?e ?d] by (simp add: m t)
  have o: "z_L (trial (update_bound_multipliers ?e ?p ?d)) = [1, 1]"
    "z_U (trial (update_bound_multipliers ?e ?p ?d)) = [1]"
    "v_L (trial (update_bound_multipliers ?e ?p ?d)) = [1]"
    "v_U (trial (update_bound_multipliers ?e ?p ?d)) = [1]"
    using C4_bound_multiplier_reset [of ?p ?e ?d] by (simp_all add: m t st)
  have f: "PerformRestoration ?e ex_phase
            = (Returned True,
               (after_solve ?e ex_phase)\<lparr>IpData :=
                  set_iteration_info (inner_data ?e ex_phase)
                    (least_square_mults ?e (constr_mult_reset_threshold ex_phase)
                       (update_bound_multipliers ?e ex_phase ?d))\<rparr>)"
    using C4_bound_multiplier_reset [of ex_phase ?e ?d ex_resto_iterate] r s c q
    by (simp add: a)
  have ls: "least_square_mults ?e threshold d' = d'\<lparr>trial := Set_eq_mult [0] [0] (trial d')\<rparr>"
    for threshold d'
    by (simp add: ex_env_def)
  have l: "z_L (trial (IpData (snd (PerformRestoration ?e ex_phase)))) = [21 / 40, 51 / 80]"
    by (simp add: f k set_iteration_info_def Let_def ls Set_eq_mult_def st)
  show ?thesis using m k st o r s f l by simp
qed

end
